theory Spec2Isabelle
  imports Complex_Main "HOL-Library.AList" "HOL-Library.Multiset"
begin

section \<open>JavaScript values, strings and errors\<close>

text \<open>
  The Lambda handler of \<^verbatim>\<open>lambda_code/index.js\<close> works on JavaScript values: the parsed
  request body, the authorizer claims, the rows the database returns. A value is one of
  the seven kinds below. An object is an association list of its own properties, in
  insertion order.

  A \<^typ>\<open>char\<close> stands for one code unit of a JavaScript string with a value below 256.
\<close>

datatype jsval =
    Undefined
  | Null
  | Bool bool
  | Num rat
  | Str string
  | Arr "jsval list"
  | Obj "(string \<times> jsval) list"

text \<open>Truthiness, as \<^verbatim>\<open>!v\<close>, \<^verbatim>\<open>a || b\<close> and \<^verbatim>\<open>if (v)\<close> use it.\<close>

fun truthy :: "jsval \<Rightarrow> bool" where
  "truthy Undefined = False"
| "truthy Null = False"
| "truthy (Bool b) = b"
| "truthy (Num n) = (n \<noteq> 0)"
| "truthy (Str s) = (s \<noteq> [])"
| "truthy (Arr xs) = True"
| "truthy (Obj kvs) = True"

definition js_or :: "jsval \<Rightarrow> jsval \<Rightarrow> jsval" where
  "js_or a b = (if truthy a then a else b)"

fun nullish :: "jsval \<Rightarrow> bool" where
  "nullish Undefined = True"
| "nullish Null = True"
| "nullish v = False"

text \<open>
  \<^verbatim>\<open>v.k\<close> for a value that is neither \<^verbatim>\<open>null\<close> nor \<^verbatim>\<open>undefined\<close> (on those the
  access throws a TypeError, which each caller writes out). The handler reads only
  property names that no prototype defines, so a primitive or an array yields
  \<^verbatim>\<open>undefined\<close>.
\<close>

fun get_prop :: "jsval \<Rightarrow> string \<Rightarrow> jsval" where
  "get_prop (Obj kvs) k = (case map_of kvs k of None \<Rightarrow> Undefined | Some v \<Rightarrow> v)"
| "get_prop v k = Undefined"

text \<open>\<^verbatim>\<open>Object.keys(v).length\<close>; \<^verbatim>\<open>Object.keys\<close> throws on \<^verbatim>\<open>null\<close> and \<^verbatim>\<open>undefined\<close>.\<close>

fun object_keys_length :: "jsval \<Rightarrow> nat option" where
  "object_keys_length Undefined = None"
| "object_keys_length Null = None"
| "object_keys_length (Bool b) = Some 0"
| "object_keys_length (Num n) = Some 0"
| "object_keys_length (Str s) = Some (length s)"
| "object_keys_length (Arr xs) = Some (length xs)"
| "object_keys_length (Obj kvs) = Some (length kvs)"

text \<open>\<^verbatim>\<open>typeof v !== 'object' || v === null\<close>\<close>

fun not_an_object :: "jsval \<Rightarrow> bool" where
  "not_an_object (Arr xs) = False"
| "not_an_object (Obj kvs) = False"
| "not_an_object v = True"

fun is_nonempty_array :: "jsval \<Rightarrow> bool" where
  "is_nonempty_array (Arr xs) = (xs \<noteq> [])"
| "is_nonempty_array v = False"

definition squote :: char where
  "squote = CHR 0x27"

definition dquote :: char where
  "dquote = CHR 0x22"

fun starts_with :: "string \<Rightarrow> string \<Rightarrow> bool" where
  "starts_with s [] = True"
| "starts_with [] (p # ps) = False"
| "starts_with (c # cs) (p # ps) = (c = p \<and> starts_with cs ps)"

fun str_includes :: "string \<Rightarrow> string \<Rightarrow> bool" where
  "str_includes [] p = (p = [])"
| "str_includes (c # cs) p = (starts_with (c # cs) p \<or> str_includes cs p)"

text \<open>
  \<^verbatim>\<open>String.prototype.trim\<close> strips white space and line terminators from both ends;
  among the code units below 256 these are TAB, LF, VT, FF, CR, SPACE and NBSP.
\<close>

definition is_white_space :: "char \<Rightarrow> bool" where
  "is_white_space c = (c \<in> set [CHR 0x09, CHR 0x0A, CHR 0x0B, CHR 0x0C, CHR 0x0D, CHR 0x20, CHR 0xA0])"

definition trim :: "string \<Rightarrow> string" where
  "trim s = rev (dropWhile is_white_space (rev (dropWhile is_white_space s)))"

text \<open>
  A thrown value: an \<^verbatim>\<open>Error\<close> with its message, and the fields node-postgres adds to
  a database error (\<^verbatim>\<open>code\<close>, \<^verbatim>\<open>detail\<close>, \<^verbatim>\<open>constraint\<close>), absent on other errors.
\<close>

record js_error =
  message :: string
  code :: "string option"
  detail :: "string option"
  constraint :: "string option"

definition new_Error :: "string \<Rightarrow> js_error" where
  "new_Error m = \<lparr>message = m, code = None, detail = None, constraint = None\<rparr>"

definition opt_str :: "string option \<Rightarrow> jsval" where
  "opt_str x = (case x of None \<Rightarrow> Undefined | Some s \<Rightarrow> Str s)"

section \<open>The database connection\<close>

text \<open>
  A parameter handed to \<^verbatim>\<open>client.query(text, values)\<close> is a value, or the text that
  \<^verbatim>\<open>JSON.stringify\<close> makes of a value.
\<close>

datatype param = Val jsval | JsonText jsval

datatype stmt = Stmt (sql: string) (params: "param list")

type_synonym row = "(string \<times> jsval) list"

record qresult =
  rows :: "row list"
  rowCount :: nat

text \<open>
  What the handler does to the database, in order: a connection borrowed from the pool
  (\<^verbatim>\<open>pool.connect()\<close> resolved), a failed borrow, a statement sent on the borrowed
  connection, the connection released.
\<close>

datatype db_event = Borrow | ConnectFailed | Exec stmt | Release

text \<open>
  The database is a parameter: any state type \<open>'db\<close> with the outcome of
  \<^verbatim>\<open>pool.connect()\<close> (\<open>None\<close>: a client is handed out) and of \<^verbatim>\<open>client.query\<close>
  (\<open>Inl\<close>: the promise rejects).
\<close>

record 'db pg =
  pg_connect :: "'db \<Rightarrow> js_error option \<times> 'db"
  pg_query :: "'db \<Rightarrow> stmt \<Rightarrow> (js_error + qresult) \<times> 'db"

record db_credentials =
  host :: string
  port :: nat
  user :: string
  password :: string
  database :: string

text \<open>
  The process state: the module variable \<^verbatim>\<open>pool\<close> (\<open>None\<close> while it is unset or
  \<^verbatim>\<open>null\<close>), the database behind it, and the trace of database events so far.
\<close>

record 'db state =
  pool :: "db_credentials option"
  db :: 'db
  trace :: "db_event list"

definition pool_connect :: "'db pg \<Rightarrow> 'db state \<Rightarrow> js_error option \<times> 'db state" where
  "pool_connect pg s =
     (case pg_connect pg (db s) of
        (None, d) \<Rightarrow> (None, s\<lparr>db := d, trace := trace s @ [Borrow]\<rparr>)
      | (Some e, d) \<Rightarrow> (Some e, s\<lparr>db := d, trace := trace s @ [ConnectFailed]\<rparr>))"

definition client_query :: "'db pg \<Rightarrow> stmt \<Rightarrow> 'db state \<Rightarrow> (js_error + qresult) \<times> 'db state" where
  "client_query pg q s =
     (case pg_query pg (db s) q of
        (r, d) \<Rightarrow> (r, s\<lparr>db := d, trace := trace s @ [Exec q]\<rparr>))"

definition client_release :: "'db state \<Rightarrow> 'db state" where
  "client_release s = s\<lparr>trace := trace s @ [Release]\<rparr>"

section \<open>Tenant context\<close>

text \<open>
  \<^verbatim>\<open>isValidSchemaName\<close>: the regular expression \<^verbatim>\<open>/^[a-zA-Z_][a-zA-Z0-9_]*$/\<close>, after
  the guard \<^verbatim>\<open>if (!schemaName) return false\<close>.
\<close>

definition in_range :: "char \<Rightarrow> char \<Rightarrow> char \<Rightarrow> bool" where
  "in_range lo hi c = ((of_char lo :: nat) \<le> of_char c \<and> (of_char c :: nat) \<le> of_char hi)"

definition is_letter :: "char \<Rightarrow> bool" where
  "is_letter c = (in_range (CHR ''a'') (CHR ''z'') c \<or> in_range (CHR ''A'') (CHR ''Z'') c)"

definition is_digit :: "char \<Rightarrow> bool" where
  "is_digit c = in_range (CHR ''0'') (CHR ''9'') c"

definition schema_head :: "char \<Rightarrow> bool" where
  "schema_head c = (is_letter c \<or> c = CHR ''_'')"

definition schema_tail :: "char \<Rightarrow> bool" where
  "schema_tail c = (is_letter c \<or> is_digit c \<or> c = CHR ''_'')"

fun isValidSchemaName :: "string \<Rightarrow> bool" where
  "isValidSchemaName [] = False"
| "isValidSchemaName (c # cs) = (schema_head c \<and> list_all schema_tail cs)"

text \<open>
  \<^verbatim>\<open>client.escapeIdentifier\<close> of node-postgres: the identifier in double quotes, each
  double quote inside it doubled.
\<close>

definition escapeIdentifier :: "string \<Rightarrow> string" where
  "escapeIdentifier s = dquote # concat (map (\<lambda>c. if c = dquote then [dquote, dquote] else [c]) s) @ [dquote]"

definition search_path_sql :: "string \<Rightarrow> string" where
  "search_path_sql tenantSchema = ''SET search_path TO '' @ escapeIdentifier tenantSchema @ '', public;''"

text \<open>
  \<^verbatim>\<open>setTenantSearchPath(client, tenantSchema)\<close>: \<open>Some e\<close> when it throws \<open>e\<close>. An error of
  the \<^verbatim>\<open>SET\<close> statement is rethrown as it is.
\<close>

definition setTenantSearchPath :: "'db pg \<Rightarrow> string \<Rightarrow> 'db state \<Rightarrow> js_error option \<times> 'db state" where
  "setTenantSearchPath pg tenantSchema s =
     (if \<not> isValidSchemaName tenantSchema then (Some (new_Error ''Invalid tenant identifier.''), s)
      else (case client_query pg (Stmt (search_path_sql tenantSchema) []) s of
              (Inl e, s') \<Rightarrow> (Some e, s')
            | (Inr r, s') \<Rightarrow> (None, s')))"

section \<open>Requests, responses and the environment\<close>

text \<open>
  The API Gateway proxy event, as far as the handler reads it. The body string is given
  by what \<^verbatim>\<open>JSON.parse\<close> makes of it: \<open>NoBody\<close> when \<^verbatim>\<open>event.body\<close> is falsy
  (absent, \<^verbatim>\<open>null\<close> or empty), \<open>Unparseable m\<close> when \<^verbatim>\<open>JSON.parse\<close> throws a SyntaxError
  with message \<open>m\<close>, \<open>Parsed v\<close> when it returns \<open>v\<close>.
  \<open>ev_path_id\<close> is \<^verbatim>\<open>event.pathParameters?.id\<close>, \<open>ev_query_patient_id\<close> is
  \<^verbatim>\<open>event.queryStringParameters?.patient_id\<close>, \<open>ev_claims\<close> is
  \<^verbatim>\<open>event.requestContext?.authorizer?.claims\<close>.
\<close>

datatype body_input = NoBody | Unparseable string | Parsed jsval

record event =
  ev_method :: string
  ev_path :: string
  ev_body :: body_input
  ev_path_id :: "string option"
  ev_query_patient_id :: "string option"
  ev_claims :: jsval

text \<open>
  The response: \<open>Json v\<close> is the body text \<^verbatim>\<open>JSON.stringify(v)\<close>, \<open>Raw s\<close> the literal
  text \<open>s\<close>.
\<close>

datatype resp_body = Raw string | Json jsval

record response =
  statusCode :: nat
  headers :: "(string \<times> jsval) list"
  body :: resp_body

text \<open>
  What the handler reads from outside the request and the database: the environment
  variable \<^verbatim>\<open>CORS_ALLOW_ORIGIN\<close>, the clock (\<^verbatim>\<open>new Date().toISOString()\<close>), the
  conversion \<^verbatim>\<open>String(v)\<close> that a template literal applies to an interpolated value, and
  the outcome of \<^verbatim>\<open>getDbCredentials()\<close>, which talks to the secret store only.
\<close>

record env =
  CORS_ALLOW_ORIGIN :: "string option"
  now_iso :: string
  js_String :: "jsval \<Rightarrow> string"
  getDbCredentials :: "js_error + db_credentials"

definition allow_origin :: "env \<Rightarrow> string" where
  "allow_origin env = (case CORS_ALLOW_ORIGIN env of None \<Rightarrow> ''*'' | Some v \<Rightarrow> if v = [] then ''*'' else v)"

definition cors_headers :: "env \<Rightarrow> (string \<times> jsval) list" where
  "cors_headers env =
     [(''Access-Control-Allow-Origin'', Str (allow_origin env)),
      (''Access-Control-Allow-Headers'', Str ''Content-Type, Authorization''),
      (''Access-Control-Allow-Methods'', Str ''OPTIONS,POST,GET,PUT,DELETE''),
      (''Content-Type'', Str ''application/json'')]"

definition preflight_response :: "env \<Rightarrow> response" where
  "preflight_response env =
     \<lparr>statusCode = 204,
      headers =
        [(''Access-Control-Allow-Origin'', Str (allow_origin env)),
         (''Access-Control-Allow-Methods'', Str ''OPTIONS,POST,GET,PUT,DELETE''),
         (''Access-Control-Allow-Headers'', Str ''Content-Type, Authorization''),
         (''Access-Control-Max-Age'', Num 86400)],
      body = Raw []\<rparr>"

text \<open>Object spread \<^verbatim>\<open>{...base, ...over}\<close>: a key keeps its first position and takes its last value.\<close>

definition spread :: "(string \<times> jsval) list \<Rightarrow> (string \<times> jsval) list \<Rightarrow> (string \<times> jsval) list" where
  "spread base over = fold (\<lambda>(k, v). AList.update k v) over base"

definition finalHeaders :: "env \<Rightarrow> (string \<times> jsval) list" where
  "finalHeaders env =
     spread
       [(''Access-Control-Allow-Origin'', Str ''*''),
        (''Access-Control-Allow-Headers'', Str ''Content-Type,X-Amz-Date,Authorization,X-Api-Key,X-Amz-Security-Token''),
        (''Access-Control-Allow-Methods'', Str ''OPTIONS,POST,GET,PUT,DELETE'')]
       (cors_headers env)"

definition msg :: "string \<Rightarrow> jsval" where
  "msg m = Obj [(''message'', Str m)]"

definition msg_error :: "string \<Rightarrow> jsval \<Rightarrow> jsval" where
  "msg_error m e = Obj [(''message'', Str m), (''error'', e)]"

definition schema_not_found :: "string \<Rightarrow> js_error \<Rightarrow> jsval" where
  "schema_not_found tenantSchema e =
     msg_error (''Tenant schema '' @ [squote] @ tenantSchema @ [squote] @ '' not found.'') (Str (message e))"

text \<open>
  \<^verbatim>\<open>!v\<close> for a path or query parameter, which is a string or absent. A route reads
  the parameter itself only after this test has found it present and not empty.
\<close>

definition falsy_str :: "string option \<Rightarrow> bool" where
  "falsy_str x = (case x of None \<Rightarrow> True | Some v \<Rightarrow> v = [])"

definition body_or_empty :: "body_input \<Rightarrow> jsval" where
  "body_or_empty b = (case b of Parsed v \<Rightarrow> v | _ \<Rightarrow> Obj [])"

definition type_error_read :: "jsval \<Rightarrow> string \<Rightarrow> js_error" where
  "type_error_read v k =
     new_Error (''Cannot read properties of '' @ (if v = Null then ''null'' else ''undefined'')
                  @ '' (reading '' @ [squote] @ k @ [squote] @ '')'')"

definition type_error_keys :: js_error where
  "type_error_keys = new_Error ''Cannot convert undefined or null to object''"

text \<open>
  What a route leaves behind: an early \<^verbatim>\<open>return\<close> of a response, or \<^verbatim>\<open>statusCode\<close> and
  \<^verbatim>\<open>responseBody\<close> set for the final response at the end of the handler.
\<close>

datatype outcome = Return response | Fallthrough nat jsval

section \<open>Operation handlers\<close>

text \<open>
  The idiom every tenant route repeats inside its \<^verbatim>\<open>try\<close>:
  \<^verbatim>\<open>client = await pool.connect(); await setTenantSearchPath(client, tenantSchema); ...\<close>
  with \<^verbatim>\<open>finally { if (client) client.release(); }\<close>. \<open>Inl e\<close> is the error the
  route's \<^verbatim>\<open>catch\<close> receives.
\<close>

definition with_tenant_client ::
  "'db pg \<Rightarrow> string \<Rightarrow> ('db state \<Rightarrow> (js_error + 'a) \<times> 'db state) \<Rightarrow> 'db state \<Rightarrow> (js_error + 'a) \<times> 'db state" where
  "with_tenant_client pg tenantSchema work s =
     (case pool_connect pg s of
        (Some e, s1) \<Rightarrow> (Inl e, s1)
      | (None, s1) \<Rightarrow>
          (case setTenantSearchPath pg tenantSchema s1 of
             (Some e, s2) \<Rightarrow> (Inl e, client_release s2)
           | (None, s2) \<Rightarrow> (case work s2 of (r, s3) \<Rightarrow> (r, client_release s3))))"

text \<open>\<^verbatim>\<open>const result = await client.query(text, values)\<close> followed by code that reads \<open>result\<close>.\<close>

definition query_then ::
  "'db pg \<Rightarrow> stmt \<Rightarrow> (qresult \<Rightarrow> js_error + 'a) \<Rightarrow> 'db state \<Rightarrow> (js_error + 'a) \<times> 'db state" where
  "query_then pg q k s =
     (case client_query pg q s of
        (Inl e, s') \<Rightarrow> (Inl e, s')
      | (Inr result, s') \<Rightarrow> (k result, s'))"

text \<open>
  SQL texts are written with each run of white space collapsed to one space and
  trimmed, as the handler's own log lines print them.
\<close>

subsection \<open>GET /patients\<close>

definition list_patients_sql :: string where
  "list_patients_sql = ''SELECT patient_id, first_name, last_name, date_of_birth, created_at, updated_at FROM patients ORDER BY last_name, first_name;''"

definition get_patients :: "'db pg \<Rightarrow> string \<Rightarrow> 'db state \<Rightarrow> outcome \<times> 'db state" where
  "get_patients pg tenantSchema s =
     (case with_tenant_client pg tenantSchema
             (query_then pg (Stmt list_patients_sql [])
                (\<lambda>result. Inr (Fallthrough 200 (Arr (map Obj (rows result)))))) s of
        (Inr out, s') \<Rightarrow> (out, s')
      | (Inl dbError, s') \<Rightarrow>
          (if code dbError = Some ''3F000''
           then Fallthrough 404 (schema_not_found tenantSchema dbError)
           else Fallthrough 500 (msg_error ''Internal Server Error: Could not fetch patients.'' (Str (message dbError))),
           s'))"

subsection \<open>POST /patients\<close>

definition insert_patient_sql :: string where
  "insert_patient_sql = ''INSERT INTO patients ( first_name, last_name, date_of_birth, middle_initial, preferred_name, gender, phone_number, email, address_line1, address_line2, city, state_province, postal_code, country, is_medicare_eligible, custom_data ) VALUES ($1, $2, $3, $4, $5, $6, $7, $8, $9, $10, $11, $12, $13, $14, $15, $16::jsonb) RETURNING patient_id, first_name, last_name, date_of_birth, created_at;''"

definition insert_patient_values :: "jsval \<Rightarrow> param list" where
  "insert_patient_values b =
     [Val (get_prop b ''first_name''),
      Val (get_prop b ''last_name''),
      Val (get_prop b ''date_of_birth''),
      Val (js_or (get_prop b ''middle_initial'') Null),
      Val (js_or (get_prop b ''preferred_name'') Null),
      Val (js_or (get_prop b ''gender'') Null),
      Val (js_or (get_prop b ''phone_number'') Null),
      Val (js_or (get_prop b ''email'') Null),
      Val (js_or (get_prop b ''address_line1'') Null),
      Val (js_or (get_prop b ''address_line2'') Null),
      Val (js_or (get_prop b ''city'') Null),
      Val (js_or (get_prop b ''state_province'') Null),
      Val (js_or (get_prop b ''postal_code'') Null),
      Val (js_or (get_prop b ''country'') Null),
      Val (js_or (get_prop b ''is_medicare_eligible'') (Bool False)),
      JsonText (js_or (get_prop b ''custom_data'') (Obj []))]"

definition missing_required :: "jsval \<Rightarrow> bool" where
  "missing_required b =
     (\<not> truthy (get_prop b ''first_name'') \<or> \<not> truthy (get_prop b ''last_name'')
      \<or> \<not> truthy (get_prop b ''date_of_birth''))"

definition catch_post_patients :: "string \<Rightarrow> js_error \<Rightarrow> outcome" where
  "catch_post_patients tenantSchema dbError =
     (if code dbError = Some ''23505''
      then Fallthrough 409 (msg_error ''Conflict: Patient data violates a unique constraint.'' (opt_str (detail dbError)))
      else if code dbError = Some ''22P02''
      then Fallthrough 400 (msg_error ''Bad Request: Invalid data format provided.'' (Str (message dbError)))
      else if code dbError = Some ''3F000''
      then Fallthrough 404 (schema_not_found tenantSchema dbError)
      else Fallthrough 500 (msg_error ''Internal Server Error: Could not create patient.'' (Str (message dbError))))"

definition post_patients :: "'db pg \<Rightarrow> event \<Rightarrow> string \<Rightarrow> 'db state \<Rightarrow> outcome \<times> 'db state" where
  "post_patients pg ev tenantSchema s =
     (case ev_body ev of
        Unparseable m \<Rightarrow> (Fallthrough 400 (msg ''Bad Request: Invalid JSON format in request body.''), s)
      | _ \<Rightarrow>
         (let b = body_or_empty (ev_body ev) in
          (case (if nullish b then (Inl (type_error_read b ''first_name''), s)
                 else if missing_required b
                 then (Inr (Fallthrough 400 (msg ''Bad Request: Missing required patient fields (first_name, last_name, date_of_birth).'')), s)
                 else with_tenant_client pg tenantSchema
                        (query_then pg (Stmt insert_patient_sql (insert_patient_values b))
                           (\<lambda>result. case rows result of
                                [] \<Rightarrow> Inl (new_Error ''Failed to retrieve created patient details after insert.'')
                              | newPatient # _ \<Rightarrow>
                                  Inr (Fallthrough 201
                                         (Obj [(''message'', Str ''Patient created successfully.''),
                                               (''patientId'', get_prop (Obj newPatient) ''patient_id'')])))) s) of
             (Inr out, s') \<Rightarrow> (out, s')
           | (Inl dbError, s') \<Rightarrow> (catch_post_patients tenantSchema dbError, s'))))"

subsection \<open>PUT /patients/{id}\<close>

fun show_nat :: "nat \<Rightarrow> string" where
  "show_nat n =
     (if n < 10 then [char_of (48 + n)]
      else show_nat (n div 10) @ [char_of (48 + n mod 10)])"

text \<open>
  The partial update: a column is set when the body has the property, that is when
  \<^verbatim>\<open>body.k !== undefined\<close>; \<open>assignments\<close> numbers the placeholders from \<open>paramIndex\<close>.
\<close>

definition supplied :: "jsval \<Rightarrow> (string \<times> (jsval \<Rightarrow> param)) list \<Rightarrow> (string \<times> param) list" where
  "supplied b cols = map (\<lambda>(k, f). (k, f (get_prop b k))) (filter (\<lambda>(k, f). get_prop b k \<noteq> Undefined) cols)"

fun assignments :: "nat \<Rightarrow> string list \<Rightarrow> string list" where
  "assignments paramIndex [] = []"
| "assignments paramIndex (k # ks) = (k @ '' = $'' @ show_nat paramIndex) # assignments (Suc paramIndex) ks"

fun join :: "string list \<Rightarrow> string \<Rightarrow> string" where
  "join [] sep = []"
| "join [x] sep = x"
| "join (x # y # ys) sep = x @ sep @ join (y # ys) sep"

definition json_or_empty :: "jsval \<Rightarrow> param" where
  "json_or_empty v = JsonText (js_or v (Obj []))"

definition patient_columns :: "(string \<times> (jsval \<Rightarrow> param)) list" where
  "patient_columns =
     [(''first_name'', Val), (''last_name'', Val), (''date_of_birth'', Val), (''gender'', Val),
      (''contact_info'', json_or_empty), (''address'', json_or_empty),
      (''insurance_info'', json_or_empty), (''medical_history'', json_or_empty)]"

definition update_sql :: "string \<Rightarrow> string \<Rightarrow> string \<Rightarrow> string list \<Rightarrow> string" where
  "update_sql table key returning ks =
     ''UPDATE '' @ table @ '' SET ''
       @ join (assignments 1 ks @ [''updated_at = CURRENT_TIMESTAMP'']) '', ''
       @ '' WHERE '' @ key @ '' = $'' @ show_nat (length ks + 1)
       @ '' RETURNING '' @ returning @ '';''"

definition catch_put_patient :: "string \<Rightarrow> string \<Rightarrow> js_error \<Rightarrow> outcome" where
  "catch_put_patient tenantSchema patientId dbError =
     (if code dbError = Some ''23505''
      then Fallthrough 409 (msg_error ''Conflict: Update violates a unique constraint.'' (opt_str (detail dbError)))
      else if code dbError = Some ''22P02''
      then Fallthrough 400 (msg_error ''Bad Request: Invalid data format provided for update.'' (Str (message dbError)))
      else if code dbError = Some ''3F000''
      then Fallthrough 404 (schema_not_found tenantSchema dbError)
      else Fallthrough 500
             (msg_error (''Internal Server Error: Could not update patient '' @ patientId @ ''.'') (Str (message dbError))))"

definition put_patient :: "'db pg \<Rightarrow> event \<Rightarrow> string \<Rightarrow> 'db state \<Rightarrow> outcome \<times> 'db state" where
  "put_patient pg ev tenantSchema s =
     (if falsy_str (ev_path_id ev) then (Fallthrough 400 (msg ''Bad Request: Missing patient ID in path.''), s)
      else
        (let patientId = the (ev_path_id ev) in
         (case (case ev_body ev of
                  Unparseable m \<Rightarrow> (Inl (new_Error m), s)
                | _ \<Rightarrow>
                   (let b = body_or_empty (ev_body ev) in
                    (case object_keys_length b of
                       None \<Rightarrow> (Inl type_error_keys, s)
                     | Some n \<Rightarrow>
                         if n = 0 then (Inr (Fallthrough 400 (msg ''Bad Request: No fields provided for update.'')), s)
                         else with_tenant_client pg tenantSchema
                                (\<lambda>s. let fs = supplied b patient_columns in
                                  if fs = [] then (Inr (Fallthrough 400 (msg ''Bad Request: No updatable fields provided.'')), s)
                                  else query_then pg
                                         (Stmt (update_sql ''patients'' ''patient_id''
                                                  ''patient_id, first_name, last_name, date_of_birth, updated_at'' (map fst fs))
                                               (map snd fs @ [Val (Str patientId)]))
                                         (\<lambda>result.
                                            if rowCount result > 0
                                            then (case rows result of
                                                    [] \<Rightarrow> Inl (type_error_read Undefined ''patient_id'')
                                                  | updatedPatient # _ \<Rightarrow>
                                                      Inr (Fallthrough 200
                                                             (Obj [(''message'', Str ''Patient updated successfully.''),
                                                                   (''patient'', Obj updatedPatient)])))
                                            else Inr (Fallthrough 404
                                                        (msg (''Patient with ID '' @ patientId @ '' not found.'')))) s) s))) of
            (Inr out, s') \<Rightarrow> (out, s')
          | (Inl dbError, s') \<Rightarrow> (catch_put_patient tenantSchema patientId dbError, s'))))"

subsection \<open>DELETE /patients/{id}\<close>

definition catch_delete_patient :: "string \<Rightarrow> string \<Rightarrow> js_error \<Rightarrow> outcome" where
  "catch_delete_patient tenantSchema patientId dbError =
     (if code dbError = Some ''23503''
      then Fallthrough 409
             (msg_error (''Conflict: Cannot delete patient '' @ patientId @ '' as they have related records (e.g., SOAP notes).'')
                (opt_str (detail dbError)))
      else if code dbError = Some ''3F000''
      then Fallthrough 404 (schema_not_found tenantSchema dbError)
      else Fallthrough 500
             (msg_error (''Internal Server Error: Could not delete patient '' @ patientId @ ''.'') (Str (message dbError))))"

definition delete_patient :: "'db pg \<Rightarrow> event \<Rightarrow> string \<Rightarrow> 'db state \<Rightarrow> outcome \<times> 'db state" where
  "delete_patient pg ev tenantSchema s =
     (if falsy_str (ev_path_id ev) then (Fallthrough 400 (msg ''Bad Request: Missing patient ID in path.''), s)
      else
        (let patientId = the (ev_path_id ev) in
         (case with_tenant_client pg tenantSchema
                 (query_then pg (Stmt ''DELETE FROM patients WHERE patient_id = $1;'' [Val (Str patientId)])
                    (\<lambda>result.
                       if rowCount result > 0
                       then Inr (Fallthrough 200 (msg (''Patient '' @ patientId @ '' deleted successfully.'')))
                       else Inr (Fallthrough 404 (msg (''Patient with ID '' @ patientId @ '' not found.''))))) s of
            (Inr out, s') \<Rightarrow> (out, s')
          | (Inl dbError, s') \<Rightarrow> (catch_delete_patient tenantSchema patientId dbError, s'))))"

subsection \<open>GET /waiting-queue and GET /queue\<close>

text \<open>Both routes hold the same code and the same statement.\<close>

definition queue_sql :: string where
  "queue_sql = ''SELECT wq.queue_entry_id, wq.patient_id, p.first_name, p.last_name, wq.queue_timestamp, wq.status, wq.notes FROM waiting_queue wq JOIN patients p ON wq.patient_id = p.patient_id ORDER BY wq.queue_timestamp ASC;''"

definition catch_queue :: "string \<Rightarrow> js_error \<Rightarrow> outcome" where
  "catch_queue tenantSchema dbError =
     (if code dbError = Some ''42P01''
      then Fallthrough 500
             (msg_error (''Internal Server Error: waiting_queue table not found in schema '' @ tenantSchema @ ''.'')
                (Str (message dbError)))
      else if code dbError = Some ''3F000''
      then Fallthrough 404 (schema_not_found tenantSchema dbError)
      else Fallthrough 500 (msg_error ''Internal Server Error: Could not fetch waiting queue.'' (Str (message dbError))))"

definition get_queue :: "'db pg \<Rightarrow> string \<Rightarrow> 'db state \<Rightarrow> outcome \<times> 'db state" where
  "get_queue pg tenantSchema s =
     (case with_tenant_client pg tenantSchema
             (query_then pg (Stmt queue_sql [])
                (\<lambda>result. Inr (Fallthrough 200 (Arr (map Obj (rows result)))))) s of
        (Inr out, s') \<Rightarrow> (out, s')
      | (Inl dbError, s') \<Rightarrow> (catch_queue tenantSchema dbError, s'))"

subsection \<open>POST /soapnotes\<close>

text \<open>
  The statement names ten columns and nine values, as the source does; the SQL comment
  inside the column list is left out of the text.
\<close>

definition insert_note_sql :: string where
  "insert_note_sql = ''INSERT INTO notes ( patient_id, doctor_id, subjective_note, objective_note, assessment_note, plan_note, dx_codes, billing_codes, note_type, signed_status ) VALUES ($1, $2, $3, $4, $5, $6, $7::jsonb, $8::jsonb, $9) RETURNING note_id, created_at, updated_at, signed_status;''"

text \<open>
  \<^verbatim>\<open>(Array.isArray(c) && c.length > 0) ? JSON.stringify(c) : null\<close>
\<close>

definition sanitize_codes :: "jsval \<Rightarrow> param" where
  "sanitize_codes c = (if is_nonempty_array c then JsonText c else Val Null)"

definition insert_note_values :: "jsval \<Rightarrow> param list" where
  "insert_note_values requestBody =
     [Val (get_prop requestBody ''patient_id''),
      Val (js_or (get_prop requestBody ''doctor_id'') Null),
      Val (js_or (get_prop requestBody ''subjective'') Null),
      Val (js_or (get_prop requestBody ''objective'') Null),
      Val (js_or (get_prop requestBody ''assessment'') Null),
      Val (js_or (get_prop requestBody ''plan'') Null),
      sanitize_codes (get_prop requestBody ''dx_codes''),
      sanitize_codes (get_prop requestBody ''billing_codes''),
      Val (Str ''SOAP'')]"

definition catch_post_soapnotes :: "env \<Rightarrow> string \<Rightarrow> jsval \<Rightarrow> js_error \<Rightarrow> outcome" where
  "catch_post_soapnotes env tenantSchema requestBody dbError =
     (if code dbError = Some ''23503''
      then (let field = (if constraint dbError = Some ''fk_notes_patient'' then ''patient_id''
                         else if constraint dbError = Some ''fk_notes_doctor'' then ''doctor_id''
                         else ''related entity'');
                idValue = (if constraint dbError = Some ''fk_notes_patient'' then get_prop requestBody ''patient_id''
                           else js_or (get_prop requestBody ''doctor_id'') Null)
            in Fallthrough 400
                 (msg (''Bad Request: Invalid '' @ field @ '' provided ('' @ js_String env idValue @ ''). It does not exist.'')))
      else if code dbError = Some ''22P02''
      then Fallthrough 400 (msg_error ''Bad Request: Invalid data format provided.'' (Str (message dbError)))
      else if code dbError = Some ''3F000''
      then Fallthrough 404 (schema_not_found tenantSchema dbError)
      else Fallthrough 500 (msg_error ''Internal Server Error: Could not save SOAP note.'' (Str (message dbError))))"

definition bad_request :: "env \<Rightarrow> string \<Rightarrow> response" where
  "bad_request env m = \<lparr>statusCode = 400, headers = cors_headers env, body = Json (msg m)\<rparr>"

definition post_soapnotes :: "'db pg \<Rightarrow> env \<Rightarrow> event \<Rightarrow> string \<Rightarrow> 'db state \<Rightarrow> outcome \<times> 'db state" where
  "post_soapnotes pg env ev tenantSchema s =
     (case ev_body ev of
        NoBody \<Rightarrow> (Return (bad_request env ''Bad Request: Request body is missing.''), s)
      | Unparseable m \<Rightarrow> (Return (bad_request env (''Bad Request: '' @ m)), s)
      | Parsed requestBody \<Rightarrow>
          if not_an_object requestBody
          then (Return (bad_request env ''Bad Request: Invalid JSON object in body.''), s)
          else if \<not> truthy (get_prop requestBody ''patient_id'')
          then (Return (bad_request env (''Bad Request: Missing required field '' @ [squote] @ ''patient_id'' @ [squote] @ ''.'')), s)
          else
            (case with_tenant_client pg tenantSchema
                    (query_then pg (Stmt insert_note_sql (insert_note_values requestBody))
                       (\<lambda>result. case rows result of
                            [] \<Rightarrow> Inl (new_Error ''Failed to retrieve created note details after insert.'')
                          | newNote # _ \<Rightarrow>
                              Inr (Fallthrough 201
                                     (Obj [(''message'', Str ''SOAP note created successfully.''),
                                           (''note'', Obj newNote)])))) s of
               (Inr out, s') \<Rightarrow> (out, s')
             | (Inl dbError, s') \<Rightarrow> (catch_post_soapnotes env tenantSchema requestBody dbError, s')))"

subsection \<open>GET /soapnotes\<close>

definition list_notes_sql :: "bool \<Rightarrow> string" where
  "list_notes_sql filtered =
     ''SELECT note_id, patient_id, doctor_id, note_type, created_at, updated_at, signed_status FROM notes''
       @ (if filtered then '' WHERE patient_id = $1'' else [])
       @ '' ORDER BY created_at DESC;''"

definition catch_get_soapnotes :: "string \<Rightarrow> string option \<Rightarrow> js_error \<Rightarrow> outcome" where
  "catch_get_soapnotes tenantSchema patientId dbError =
     (if code dbError = Some ''22P02'' \<and> str_includes (message dbError) ''invalid input syntax for type uuid''
         \<and> \<not> falsy_str patientId
      then Fallthrough 400
             (msg (''Bad Request: Invalid format for patient_id filter '' @ [squote] @ the patientId @ [squote] @ ''.''))
      else if code dbError = Some ''42703'' \<and> \<not> falsy_str patientId
      then Fallthrough 400 (msg ''Bad Request: Invalid filter parameter used.'')
      else if code dbError = Some ''3F000''
      then Fallthrough 404 (schema_not_found tenantSchema dbError)
      else Fallthrough 500
             (msg_error ''Internal Server Error: Could not retrieve SOAP notes list.'' (Str (message dbError))))"

definition get_soapnotes :: "'db pg \<Rightarrow> event \<Rightarrow> string \<Rightarrow> 'db state \<Rightarrow> outcome \<times> 'db state" where
  "get_soapnotes pg ev tenantSchema s =
     (let patientId = ev_query_patient_id ev in
      (case with_tenant_client pg tenantSchema
              (query_then pg
                 (Stmt (list_notes_sql (\<not> falsy_str patientId))
                       (if falsy_str patientId then [] else [Val (Str (the patientId))]))
                 (\<lambda>result. Inr (Fallthrough 200
                                  (Obj [(''message'', Str ''SOAP notes retrieved successfully.''),
                                        (''notes'', Arr (map Obj (rows result)))])))) s of
         (Inr out, s') \<Rightarrow> (out, s')
       | (Inl dbError, s') \<Rightarrow> (catch_get_soapnotes tenantSchema patientId dbError, s')))"

subsection \<open>GET /soapnotes/{id}\<close>

definition catch_get_soapnote :: "string \<Rightarrow> string \<Rightarrow> js_error \<Rightarrow> outcome" where
  "catch_get_soapnote tenantSchema noteId dbError =
     (if code dbError = Some ''22P02'' \<and> str_includes (message dbError) ''invalid input syntax for type uuid''
      then Fallthrough 400
             (msg (''Bad Request: Invalid format for SOAP note ID '' @ [squote] @ noteId @ [squote] @ ''.''))
      else if code dbError = Some ''3F000''
      then Fallthrough 404 (schema_not_found tenantSchema dbError)
      else Fallthrough 500
             (msg_error (''Internal Server Error: Could not retrieve SOAP note '' @ noteId @ ''.'') (Str (message dbError))))"

definition get_soapnote :: "'db pg \<Rightarrow> event \<Rightarrow> string \<Rightarrow> 'db state \<Rightarrow> outcome \<times> 'db state" where
  "get_soapnote pg ev tenantSchema s =
     (if falsy_str (ev_path_id ev) then (Fallthrough 400 (msg ''Bad Request: Missing SOAP note ID in path.''), s)
      else
        (let noteId = the (ev_path_id ev) in
         (case with_tenant_client pg tenantSchema
                 (query_then pg (Stmt ''SELECT * FROM notes WHERE note_id = $1;'' [Val (Str noteId)])
                    (\<lambda>result. case rows result of
                         [] \<Rightarrow> Inr (Fallthrough 404 (msg (''SOAP note with ID '' @ noteId @ '' not found.'')))
                       | note # _ \<Rightarrow>
                           Inr (Fallthrough 200
                                  (Obj [(''message'', Str ''SOAP note retrieved successfully.''),
                                        (''note'', Obj note)])))) s of
            (Inr out, s') \<Rightarrow> (out, s')
          | (Inl dbError, s') \<Rightarrow> (catch_get_soapnote tenantSchema noteId dbError, s'))))"

subsection \<open>PUT /soapnotes/{id}\<close>

definition note_columns :: "(string \<times> (jsval \<Rightarrow> param)) list" where
  "note_columns = [(''subjective'', Val), (''objective'', Val), (''assessment'', Val), (''plan'', Val)]"

definition catch_put_soapnote :: "string \<Rightarrow> string \<Rightarrow> js_error \<Rightarrow> outcome" where
  "catch_put_soapnote tenantSchema noteId dbError =
     (if code dbError = Some ''22P02''
      then Fallthrough 400
             (msg_error ''Bad Request: Invalid data format provided for SOAP note update.'' (Str (message dbError)))
      else if code dbError = Some ''23503''
      then Fallthrough 400
             (msg_error ''Bad Request: Update references an invalid entity (e.g., patient_id).'' (opt_str (detail dbError)))
      else if code dbError = Some ''3F000''
      then Fallthrough 404 (schema_not_found tenantSchema dbError)
      else Fallthrough 500
             (msg_error (''Internal Server Error: Could not update SOAP note '' @ noteId @ ''.'') (Str (message dbError))))"

definition put_soapnote :: "'db pg \<Rightarrow> event \<Rightarrow> string \<Rightarrow> 'db state \<Rightarrow> outcome \<times> 'db state" where
  "put_soapnote pg ev tenantSchema s =
     (if falsy_str (ev_path_id ev) then (Fallthrough 400 (msg ''Bad Request: Missing SOAP note ID in path.''), s)
      else
        (let noteId = the (ev_path_id ev) in
         (case ev_body ev of
            Unparseable m \<Rightarrow> (Fallthrough 400 (msg ''Bad Request: Invalid JSON format in request body.''), s)
          | _ \<Rightarrow>
             (let b = body_or_empty (ev_body ev) in
              (case (case object_keys_length b of
                       None \<Rightarrow> (Inl type_error_keys, s)
                     | Some n \<Rightarrow>
                         if n = 0 then (Inr (Fallthrough 400 (msg ''Bad Request: No fields provided for update.'')), s)
                         else with_tenant_client pg tenantSchema
                                (\<lambda>s. let fs = supplied b note_columns in
                                  if fs = [] then (Inr (Fallthrough 400 (msg ''Bad Request: No updatable SOAP note fields provided.'')), s)
                                  else query_then pg
                                         (Stmt (update_sql ''soap_notes'' ''note_id'' ''*'' (map fst fs))
                                               (map snd fs @ [Val (Str noteId)]))
                                         (\<lambda>result.
                                            if rowCount result > 0
                                            then (case rows result of
                                                    [] \<Rightarrow> Inl (type_error_read Undefined ''note_id'')
                                                  | updatedNote # _ \<Rightarrow>
                                                      Inr (Fallthrough 200
                                                             (Obj [(''message'', Str ''SOAP note updated successfully.''),
                                                                   (''note'', Obj updatedNote)])))
                                            else Inr (Fallthrough 404
                                                        (msg (''SOAP note with ID '' @ noteId @ '' not found.'')))) s) s) of
                 (Inr out, s') \<Rightarrow> (out, s')
               | (Inl dbError, s') \<Rightarrow> (catch_put_soapnote tenantSchema noteId dbError, s'))))))"

subsection \<open>GET /healthcheck\<close>

definition healthcheck :: "'db pg \<Rightarrow> env \<Rightarrow> 'db state \<Rightarrow> outcome \<times> 'db state" where
  "healthcheck pg env s =
     (let reply = (\<lambda>dbOk. Return
            \<lparr>statusCode = 200, headers = cors_headers env,
             body = Json (Obj [(''status'', Str ''OK''),
                               (''database_status'', Str (if dbOk then ''OK'' else ''Unavailable'')),
                               (''timestamp'', Str (now_iso env))])\<rparr>)
      in (case pool_connect pg s of
            (Some dbError, s1) \<Rightarrow> (reply False, s1)
          | (None, s1) \<Rightarrow>
              (case client_query pg (Stmt ''SELECT 1'' []) s1 of
                 (Inl dbError, s2) \<Rightarrow> (reply False, client_release s2)
               | (Inr r, s2) \<Rightarrow> (reply True, client_release s2))))"

section \<open>The handler\<close>

text \<open>
  \<^verbatim>\<open>initializePool\<close>: \<open>Some e\<close> when it throws \<open>e\<close>. The pool is created from the
  credentials, then tested with one borrowed connection; on any failure the variable
  \<^verbatim>\<open>pool\<close> is cleared again.
\<close>

definition initializePool :: "'db pg \<Rightarrow> env \<Rightarrow> 'db state \<Rightarrow> js_error option \<times> 'db state" where
  "initializePool pg env s =
     (if pool s \<noteq> None then (None, s)
      else (case getDbCredentials env of
              Inl error \<Rightarrow> (Some error, s\<lparr>pool := None\<rparr>)
            | Inr dbCredentials \<Rightarrow>
                (case pool_connect pg (s\<lparr>pool := Some dbCredentials\<rparr>) of
                   (Some error, s1) \<Rightarrow> (Some error, s1\<lparr>pool := None\<rparr>)
                 | (None, s1) \<Rightarrow>
                     (case client_query pg (Stmt ''SELECT NOW()'' []) s1 of
                        (Inl error, s2) \<Rightarrow> (Some error, (client_release s2)\<lparr>pool := None\<rparr>)
                      | (Inr res, s2) \<Rightarrow> (None, client_release s2)))))"

text \<open>
  The tenant identifier: the claim \<^verbatim>\<open>custom:clinic_id\<close>, when it is a string that is not
  empty after trimming; \<open>None\<close> is the \<^verbatim>\<open>null\<close> that \<^verbatim>\<open>tenantSchema\<close> starts with.
\<close>

definition extract_tenant :: "jsval \<Rightarrow> string option" where
  "extract_tenant claims =
     (if truthy claims \<and> truthy (get_prop claims ''custom:clinic_id'')
      then (case get_prop claims ''custom:clinic_id'' of
              Str rawTenantId \<Rightarrow> if length (trim rawTenantId) > 0 then Some (trim rawTenantId) else None
            | _ \<Rightarrow> None)
      else None)"

text \<open>The chain of \<^verbatim>\<open>if\<close> / \<^verbatim>\<open>else if\<close> over path and method, in the order of the source.\<close>

definition route :: "'db pg \<Rightarrow> env \<Rightarrow> event \<Rightarrow> string \<Rightarrow> 'db state \<Rightarrow> outcome \<times> 'db state" where
  "route pg env ev tenantSchema s =
     (let path = ev_path ev; method = ev_method ev in
      if path = ''/patients'' \<and> method = ''GET'' then get_patients pg tenantSchema s
      else if method = ''POST'' \<and> path = ''/patients'' then post_patients pg ev tenantSchema s
      else if method = ''PUT'' \<and> starts_with path ''/patients/'' then put_patient pg ev tenantSchema s
      else if method = ''DELETE'' \<and> starts_with path ''/patients/'' then delete_patient pg ev tenantSchema s
      else if path = ''/waiting-queue'' \<and> method = ''GET'' then get_queue pg tenantSchema s
      else if path = ''/soapnotes'' \<and> method = ''POST'' then post_soapnotes pg env ev tenantSchema s
      else if method = ''GET'' \<and> path = ''/soapnotes'' then get_soapnotes pg ev tenantSchema s
      else if method = ''GET'' \<and> starts_with path ''/soapnotes/'' then get_soapnote pg ev tenantSchema s
      else if method = ''PUT'' \<and> starts_with path ''/soapnotes/'' then put_soapnote pg ev tenantSchema s
      else if path = ''/queue'' \<and> method = ''GET'' then get_queue pg tenantSchema s
      else (Fallthrough 404 (Obj [(''message'', Str ''Not Found''), (''requestedPath'', Str path)]), s))"

text \<open>
  The part of the handler inside its outer \<^verbatim>\<open>try\<close>: the health check, the tenant check,
  the routes. Every statement that can throw sits in a route's own \<^verbatim>\<open>try\<close>, so the
  outer \<^verbatim>\<open>catch\<close> has nothing to receive.
\<close>

definition dispatch :: "'db pg \<Rightarrow> env \<Rightarrow> event \<Rightarrow> 'db state \<Rightarrow> outcome \<times> 'db state" where
  "dispatch pg env ev s =
     (if ev_path ev = ''/healthcheck'' \<and> ev_method ev = ''GET'' then healthcheck pg env s
      else (case extract_tenant (ev_claims ev) of
              None \<Rightarrow> (Return (bad_request env ''Bad Request: Tenant identifier missing or invalid in user token.''), s)
            | Some tenantSchema \<Rightarrow> route pg env ev tenantSchema s))"

definition handler :: "'db pg \<Rightarrow> env \<Rightarrow> event \<Rightarrow> 'db state \<Rightarrow> response \<times> 'db state" where
  "handler pg env ev s =
     (if ev_method ev = ''OPTIONS'' then (preflight_response env, s)
      else (case (if pool s = None then initializePool pg env s else (None, s)) of
              (Some initError, s1) \<Rightarrow>
                (\<lparr>statusCode = 500, headers = cors_headers env,
                  body = Json (msg_error ''Internal Server Error: Could not connect to database.''
                                 (Str (message initError)))\<rparr>, s1)
            | (None, s1) \<Rightarrow>
                (case dispatch pg env ev s1 of
                   (Return r, s2) \<Rightarrow> (r, s2)
                 | (Fallthrough status responseBody, s2) \<Rightarrow>
                     (\<lparr>statusCode = status, headers = finalHeaders env, body = Json responseBody\<rparr>, s2))))"

section \<open>Observing a run\<close>

text \<open>The database events a run adds to the trace, and the statements among them.\<close>

definition new_events :: "'db state \<Rightarrow> 'db state \<Rightarrow> db_event list" where
  "new_events s s' = drop (length (trace s)) (trace s')"

fun statements :: "db_event list \<Rightarrow> stmt list" where
  "statements [] = []"
| "statements (Exec q # es) = q # statements es"
| "statements (e # es) = statements es"

text \<open>
  Every borrowed connection is released exactly once: \<open>held\<close> counts the connections
  borrowed and not yet released.
\<close>

fun released_once :: "nat \<Rightarrow> db_event list \<Rightarrow> bool" where
  "released_once held [] = (held = 0)"
| "released_once held (Borrow # es) = released_once (Suc held) es"
| "released_once held (Release # es) = (0 < held \<and> released_once (held - 1) es)"
| "released_once held (e # es) = released_once held es"

text \<open>
  A statement that changes the search path of its connection, and the two connectivity
  probes of the pool test and the health check. \<open>tenant_scoped d\<close> holds of a trace
  when every search-path statement in it is \<open>d\<close>, no borrowed connection receives a
  second one, and every statement other than a probe runs on a connection that has
  received it.
\<close>

definition is_search_path_directive :: "stmt \<Rightarrow> bool" where
  "is_search_path_directive q = starts_with (sql q) ''SET search_path''"

definition directive :: "string \<Rightarrow> stmt" where
  "directive tenantSchema = Stmt (search_path_sql tenantSchema) []"

definition probes :: "stmt list" where
  "probes = [Stmt ''SELECT NOW()'' [], Stmt ''SELECT 1'' []]"

fun tenant_scoped :: "stmt \<Rightarrow> bool \<Rightarrow> db_event list \<Rightarrow> bool" where
  "tenant_scoped d seen [] = True"
| "tenant_scoped d seen (Borrow # es) = tenant_scoped d False es"
| "tenant_scoped d seen (Exec q # es) =
     (if is_search_path_directive q then q = d \<and> \<not> seen \<and> tenant_scoped d True es
      else (seen \<or> q \<in> set probes) \<and> tenant_scoped d seen es)"
| "tenant_scoped d seen (e # es) = tenant_scoped d seen es"

text \<open>
  The traces a run can leave: of the pool test, of the health check, and of a tenant
  route, whose body sends at most one statement after the search path is set.
\<close>

definition init_events :: "db_event list \<Rightarrow> bool" where
  "init_events es = (es = [] \<or> es = [ConnectFailed] \<or> es = [Borrow, Exec (Stmt ''SELECT NOW()'' []), Release])"

definition probe_events :: "db_event list \<Rightarrow> bool" where
  "probe_events es = (es = [ConnectFailed] \<or> es = [Borrow, Exec (Stmt ''SELECT 1'' []), Release])"

definition tenant_session :: "string \<Rightarrow> db_event list \<Rightarrow> bool" where
  "tenant_session t es =
     (es = [ConnectFailed]
      \<or> (\<not> isValidSchemaName t \<and> es = [Borrow, Release])
      \<or> (isValidSchemaName t \<and>
           (es = [Borrow, Exec (directive t), Release]
            \<or> (\<exists>q. \<not> is_search_path_directive q \<and> es = [Borrow, Exec (directive t), Exec q, Release]))))"

definition work_ok :: "('db state \<Rightarrow> (js_error + 'a) \<times> 'db state) \<Rightarrow> bool" where
  "work_ok work =
     (\<forall>s. pool (snd (work s)) = pool s
        \<and> (trace (snd (work s)) = trace s
           \<or> (\<exists>q. \<not> is_search_path_directive q \<and> trace (snd (work s)) = trace s @ [Exec q])))"

definition run_ok :: "string \<Rightarrow> 'db state \<Rightarrow> 'db state \<Rightarrow> bool" where
  "run_ok t s s' = (pool s' = pool s \<and> (\<exists>es. trace s' = trace s @ es \<and> (es = [] \<or> tenant_session t es)))"

text \<open>A response body that is a JSON object with a \<^verbatim>\<open>message\<close> string.\<close>

fun has_message :: "resp_body \<Rightarrow> bool" where
  "has_message (Json (Obj kvs)) = (case map_of kvs ''message'' of Some (Str m) \<Rightarrow> True | _ \<Rightarrow> False)"
| "has_message b = False"

fun is_row_array :: "resp_body \<Rightarrow> bool" where
  "is_row_array (Json (Arr xs)) = True"
| "is_row_array b = False"

fun is_json :: "resp_body \<Rightarrow> bool" where
  "is_json (Json v) = True"
| "is_json (Raw t) = False"

section \<open>The database\<close>

subsection \<open>A scripted database\<close>

text \<open>
  The state is the list of outcomes still to come: each \<^verbatim>\<open>pool.connect()\<close> and each
  \<^verbatim>\<open>client.query\<close> takes the next one; when the script is used up, everything succeeds
  with no rows.
\<close>

datatype reply = Rejects js_error | Resolves qresult

definition scripted :: "reply list pg" where
  "scripted =
     \<lparr>pg_connect = (\<lambda>rs. case rs of
          [] \<Rightarrow> (None, [])
        | Rejects e # rs' \<Rightarrow> (Some e, rs')
        | Resolves r # rs' \<Rightarrow> (None, rs')),
      pg_query = (\<lambda>rs q. case rs of
          [] \<Rightarrow> (Inr \<lparr>rows = [], rowCount = 0\<rparr>, [])
        | Rejects e # rs' \<Rightarrow> (Inl e, rs')
        | Resolves r # rs' \<Rightarrow> (Inr r, rs'))\<rparr>"


subsection \<open>The lists of an \<^verbatim>\<open>INSERT\<close> statement\<close>

text \<open>
  PostgreSQL takes an \<^verbatim>\<open>INSERT INTO t (c1, ..., cm) VALUES (e1, ..., en)\<close> only when
  the two lists have the same length, and rejects it with the syntax error \<^verbatim>\<open>42601\<close>
  otherwise. The two lists are read off the statement's text: the first parenthesised,
  comma-separated list and the second one.
\<close>

fun split_where :: "(char \<Rightarrow> bool) \<Rightarrow> string \<Rightarrow> string list" where
  "split_where sep [] = [[]]"
| "split_where sep (c # cs) =
     (if sep c then [] # split_where sep cs
      else (case split_where sep cs of [] \<Rightarrow> [[c]] | w # ws \<Rightarrow> (c # w) # ws))"

definition parenthesised :: "string \<Rightarrow> string" where
  "parenthesised text = takeWhile (\<lambda>c. c \<noteq> CHR '')'') (drop 1 (dropWhile (\<lambda>c. c \<noteq> CHR ''('') text))"

definition after_parenthesis :: "string \<Rightarrow> string" where
  "after_parenthesis text = drop 1 (dropWhile (\<lambda>c. c \<noteq> CHR '')'') text)"

definition comma_list :: "string \<Rightarrow> string list" where
  "comma_list text = map trim (split_where (\<lambda>c. c = CHR '','') text)"

definition target_columns :: "string \<Rightarrow> string list" where
  "target_columns text = comma_list (parenthesised text)"

definition value_expressions :: "string \<Rightarrow> string list" where
  "value_expressions text = comma_list (parenthesised (after_parenthesis text))"

definition is_insert :: "string \<Rightarrow> bool" where
  "is_insert text = starts_with text ''INSERT INTO ''"

definition list_mismatch :: js_error where
  "list_mismatch =
     \<lparr>message = ''INSERT has more target columns than expressions'',
      code = Some ''42601'', detail = None, constraint = None\<rparr>"

subsection \<open>The waiting queue of a tenant schema\<close>

text \<open>
  The tables the queue listing reads, with the columns it reads, as the provisioning
  script declares them: \<^verbatim>\<open>patients\<close> and \<^verbatim>\<open>waiting_queue\<close>, one pair per tenant
  schema. A time stamp (\<^verbatim>\<open>TIMESTAMPTZ NOT NULL\<close>) is the number of microseconds since the
  epoch; \<^verbatim>\<open>status\<close> and \<^verbatim>\<open>notes\<close> may be \<^verbatim>\<open>NULL\<close>.
\<close>

record patient_row =
  patient_id :: string
  first_name :: string
  last_name :: string

record queue_row =
  queue_entry_id :: string
  wq_patient_id :: string
  queue_timestamp :: int
  wq_status :: "string option"
  wq_notes :: "string option"

record tenant_tables =
  patients :: "patient_row list"
  waiting_queue :: "queue_row list"












section \<open>Sample inputs\<close>

definition sample_credentials :: db_credentials where
  "sample_credentials = \<lparr>host = ''db.internal'', port = 5432, user = ''emr_admin'', password = ''secret'', database = ''postgres''\<rparr>"

definition sample_String :: "jsval \<Rightarrow> string" where
  "sample_String v = (case v of Str t \<Rightarrow> t | Null \<Rightarrow> ''null'' | Undefined \<Rightarrow> ''undefined''
                      | Bool b \<Rightarrow> (if b then ''true'' else ''false'') | _ \<Rightarrow> ''[object Object]'')"

definition sample_env :: env where
  "sample_env = \<lparr>CORS_ALLOW_ORIGIN = None, now_iso = ''2025-04-15T12:00:00.000Z'',
                  js_String = sample_String, getDbCredentials = Inr sample_credentials\<rparr>"

definition claims_for :: "string \<Rightarrow> jsval" where
  "claims_for tenant = Obj [(''custom:clinic_id'', Str tenant)]"

definition request :: "string \<Rightarrow> string \<Rightarrow> body_input \<Rightarrow> jsval \<Rightarrow> event" where
  "request method path b claims =
     \<lparr>ev_method = method, ev_path = path, ev_body = b, ev_path_id = None,
      ev_query_patient_id = None, ev_claims = claims\<rparr>"

definition warm :: "'db \<Rightarrow> 'db state" where
  "warm d = \<lparr>pool = Some sample_credentials, db = d, trace = []\<rparr>"

definition cold :: "'db \<Rightarrow> 'db state" where
  "cold d = \<lparr>pool = None, db = d, trace = []\<rparr>"

text \<open>
  The connectivity probe of the health check seen from the database alone: a connection
  can be borrowed and \<^verbatim>\<open>SELECT 1\<close> succeeds on it.
\<close>

definition probe_succeeds :: "'db pg \<Rightarrow> 'db \<Rightarrow> bool" where
  "probe_succeeds pg d =
     (case pg_connect pg d of
        (Some e, d') \<Rightarrow> False
      | (None, d') \<Rightarrow> (case pg_query pg d' (Stmt ''SELECT 1'' []) of (Inl e, d'') \<Rightarrow> False | (Inr r, d'') \<Rightarrow> True))"

text \<open>The optional text columns of the patient insert, \<^verbatim>\<open>$4\<close> to \<^verbatim>\<open>$14\<close>, in order.\<close>

definition optional_text_columns :: "string list" where
  "optional_text_columns =
     [''middle_initial'', ''preferred_name'', ''gender'', ''phone_number'', ''email'', ''address_line1'',
      ''address_line2'', ''city'', ''state_province'', ''postal_code'', ''country'']"

definition jane :: jsval where
  "jane = Obj [(''first_name'', Str ''Jane''), (''last_name'', Str ''Doe''), (''date_of_birth'', Str ''1990-01-01'')]"

definition created :: reply where
  "created = Resolves \<lparr>rows = [[(''patient_id'', Str ''p-1'')]], rowCount = 1\<rparr>"

definition no_rows :: reply where
  "no_rows = Resolves \<lparr>rows = [], rowCount = 0\<rparr>"

definition note_body :: jsval where
  "note_body = Obj [(''patient_id'', Str ''p-1''), (''dx_codes'', Arr [Str ''M54.5'']), (''billing_codes'', Arr [])]"

text \<open>
  What a route may leave behind: a returned response with the common headers and a
  message, or a body for the final response that has a message or, for a listing route,
  is the array of rows with status 200.
\<close>

definition answers_message :: "env \<Rightarrow> bool \<Rightarrow> outcome \<Rightarrow> bool" where
  "answers_message env listing out =
     (case out of
        Return r \<Rightarrow> headers r = cors_headers env \<and> has_message (body r)
      | Fallthrough st b \<Rightarrow> has_message (Json b) \<or> (listing \<and> st = 200 \<and> is_row_array (Json b)))"







text \<open>
  A database that checks the two lists of an \<^verbatim>\<open>INSERT\<close> as PostgreSQL does and answers
  everything else with one row.
\<close>

definition strict_pg :: "unit pg" where
  "strict_pg =
     \<lparr>pg_connect = (\<lambda>d. (None, d)),
      pg_query = (\<lambda>d q.
         if is_insert (sql q) \<and> length (target_columns (sql q)) \<noteq> length (value_expressions (sql q))
         then (Inl list_mismatch, d)
         else (Inr \<lparr>rows = [[(''patient_id'', Str ''p-1'')]], rowCount = 1\<rparr>, d))\<rparr>"

section \<open>Traces of a run\<close>

text \<open>The definitions a run of the handler on a concrete request unfolds.\<close>

lemmas run_defs =
  handler_def dispatch_def route_def healthcheck_def initializePool_def extract_tenant_def
  get_patients_def post_patients_def put_patient_def delete_patient_def get_queue_def
  post_soapnotes_def get_soapnotes_def get_soapnote_def put_soapnote_def
  with_tenant_client_def query_then_def setTenantSearchPath_def pool_connect_def client_query_def
  client_release_def scripted_def sample_env_def request_def claims_for_def warm_def cold_def
  trim_def is_white_space_def schema_head_def schema_tail_def is_letter_def is_digit_def in_range_def
  search_path_sql_def escapeIdentifier_def dquote_def squote_def new_Error_def
  preflight_response_def cors_headers_def finalHeaders_def spread_def allow_origin_def
  msg_def msg_error_def bad_request_def body_or_empty_def missing_required_def falsy_str_def
  new_events_def directive_def jane_def created_def no_rows_def note_body_def
  insert_patient_values_def insert_note_values_def sanitize_codes_def js_or_def Let_def

lemma pool_connect_trace:
  "pool_connect pg s = (r, s') \<Longrightarrow>
     pool s' = pool s \<and> trace s' = trace s @ [if r = None then Borrow else ConnectFailed]"
  by (auto simp: pool_connect_def split: prod.splits option.splits)

lemma client_query_trace:
  "client_query pg q s = (r, s') \<Longrightarrow> pool s' = pool s \<and> trace s' = trace s @ [Exec q]"
  by (auto simp: client_query_def split: prod.splits)

lemma client_release_trace:
  "pool (client_release s) = pool s \<and> trace (client_release s) = trace s @ [Release]"
  by (simp add: client_release_def)

lemma setTenantSearchPath_invalid:
  "\<not> isValidSchemaName t \<Longrightarrow> setTenantSearchPath pg t s = (Some (new_Error ''Invalid tenant identifier.''), s)"
  by (simp add: setTenantSearchPath_def)

lemma setTenantSearchPath_valid:
  "isValidSchemaName t \<Longrightarrow> setTenantSearchPath pg t s = (r, s') \<Longrightarrow>
     pool s' = pool s \<and> trace s' = trace s @ [Exec (directive t)]"
  by (auto simp: setTenantSearchPath_def directive_def dest: client_query_trace split: prod.splits sum.splits)

lemma work_ok_query_then:
  "\<not> is_search_path_directive q \<Longrightarrow> work_ok (query_then pg q k)"
  unfolding work_ok_def query_then_def
  by (auto dest: client_query_trace split: prod.splits sum.splits)

lemma work_ok_guarded:
  "\<not> is_search_path_directive q \<Longrightarrow> work_ok (\<lambda>s. if c then (x, s) else query_then pg q k s)"
  unfolding work_ok_def query_then_def
  by (auto dest: client_query_trace split: prod.splits sum.splits)

lemma with_tenant_client_session:
  assumes "work_ok work"
  shows "pool (snd (with_tenant_client pg t work s)) = pool s
     \<and> (\<exists>es. trace (snd (with_tenant_client pg t work s)) = trace s @ es \<and> tenant_session t es)"
proof (cases "pool_connect pg s")
  case (Pair r s1)
  note c = pool_connect_trace [OF Pair]
  show ?thesis
  proof (cases r)
    case (Some e)
    with Pair c show ?thesis
      by (simp add: with_tenant_client_def tenant_session_def)
  next
    case None
    show ?thesis
    proof (cases "isValidSchemaName t")
      case False
      with Pair None c show ?thesis
        by (simp add: with_tenant_client_def tenant_session_def setTenantSearchPath_invalid client_release_trace)
    next
      case True
      obtain r2 s2 where sp: "setTenantSearchPath pg t s1 = (r2, s2)" by (cases "setTenantSearchPath pg t s1")
      note d = setTenantSearchPath_valid [OF True sp]
      show ?thesis
      proof (cases r2)
        case (Some e)
        with Pair None c sp d True show ?thesis
          by (simp add: with_tenant_client_def tenant_session_def client_release_trace)
      next
        case None2: None
        obtain r3 s3 where w: "work s2 = (r3, s3)" by (cases "work s2")
        from assms have "pool s3 = pool s2
           \<and> (trace s3 = trace s2 \<or> (\<exists>q. \<not> is_search_path_directive q \<and> trace s3 = trace s2 @ [Exec q]))"
          using w unfolding work_ok_def by (metis snd_conv)
        with Pair None c sp d True None2 w show ?thesis
          by (auto simp: with_tenant_client_def tenant_session_def client_release_trace)
      qed
    qed
  qed
qed


lemma run_ok_refl: "run_ok t s s"
  by (simp add: run_ok_def)

lemma run_ok_client: "work_ok work \<Longrightarrow> run_ok t s (snd (with_tenant_client pg t work s))"
  using with_tenant_client_session [of work pg t s] by (auto simp: run_ok_def)

lemma snd_catch_id:
  "snd (case p of (Inr out, s') \<Rightarrow> (out, s') | (Inl e, s') \<Rightarrow> (g e, s')) = snd p"
  by (auto split: prod.splits sum.splits)

lemma not_directive:
  "\<not> is_search_path_directive (Stmt list_patients_sql ps)"
  "\<not> is_search_path_directive (Stmt insert_patient_sql ps)"
  "\<not> is_search_path_directive (Stmt (update_sql tb k r ks) ps)"
  "\<not> is_search_path_directive (Stmt ''DELETE FROM patients WHERE patient_id = $1;'' ps)"
  "\<not> is_search_path_directive (Stmt queue_sql ps)"
  "\<not> is_search_path_directive (Stmt insert_note_sql ps)"
  "\<not> is_search_path_directive (Stmt (list_notes_sql b) ps)"
  "\<not> is_search_path_directive (Stmt ''SELECT * FROM notes WHERE note_id = $1;'' ps)"
  "\<not> is_search_path_directive (Stmt ''SELECT 1'' ps)"
  "\<not> is_search_path_directive (Stmt ''SELECT NOW()'' ps)"
  by (simp_all add: is_search_path_directive_def list_patients_sql_def insert_patient_sql_def
      update_sql_def queue_sql_def insert_note_sql_def list_notes_sql_def)

lemma get_patients_run: "run_ok t s (snd (get_patients pg t s))"
  by (simp add: get_patients_def snd_catch_id run_ok_client work_ok_query_then not_directive)

lemma get_queue_run: "run_ok t s (snd (get_queue pg t s))"
  by (simp add: get_queue_def snd_catch_id run_ok_client work_ok_query_then not_directive)

lemma post_patients_run: "run_ok t s (snd (post_patients pg ev t s))"
  by (simp add: post_patients_def Let_def snd_catch_id run_ok_refl run_ok_client work_ok_query_then not_directive
      split: body_input.splits)

lemma put_patient_run: "run_ok t s (snd (put_patient pg ev t s))"
  by (simp add: put_patient_def Let_def snd_catch_id run_ok_refl run_ok_client work_ok_guarded not_directive
      split: body_input.splits option.splits)

lemma delete_patient_run: "run_ok t s (snd (delete_patient pg ev t s))"
  by (simp add: delete_patient_def Let_def snd_catch_id run_ok_refl run_ok_client work_ok_query_then not_directive)

lemma post_soapnotes_run: "run_ok t s (snd (post_soapnotes pg env ev t s))"
  by (simp add: post_soapnotes_def Let_def snd_catch_id run_ok_refl run_ok_client work_ok_query_then not_directive
      split: body_input.splits)

lemma get_soapnotes_run: "run_ok t s (snd (get_soapnotes pg ev t s))"
  by (simp add: get_soapnotes_def Let_def snd_catch_id run_ok_refl run_ok_client work_ok_query_then not_directive)

lemma get_soapnote_run: "run_ok t s (snd (get_soapnote pg ev t s))"
  by (simp add: get_soapnote_def Let_def snd_catch_id run_ok_refl run_ok_client work_ok_query_then not_directive)

lemma put_soapnote_run: "run_ok t s (snd (put_soapnote pg ev t s))"
  by (simp add: put_soapnote_def Let_def snd_catch_id run_ok_refl run_ok_client work_ok_guarded not_directive
      split: body_input.splits option.splits)

lemma route_run: "run_ok t s (snd (route pg env ev t s))"
  by (simp add: route_def Let_def run_ok_refl get_patients_run get_queue_run post_patients_run put_patient_run
      delete_patient_run post_soapnotes_run get_soapnotes_run get_soapnote_run put_soapnote_run)


lemma healthcheck_run:
  "pool (snd (healthcheck pg env s)) = pool s
   \<and> (\<exists>es. trace (snd (healthcheck pg env s)) = trace s @ es \<and> probe_events es)"
  by (auto simp: healthcheck_def Let_def probe_events_def client_release_trace
      dest!: pool_connect_trace client_query_trace split: prod.splits option.splits sum.splits)

lemma initializePool_run:
  "\<exists>es. trace (snd (initializePool pg env s)) = trace s @ es \<and> init_events es"
  by (auto simp: initializePool_def init_events_def client_release_trace
      dest!: pool_connect_trace client_query_trace split: prod.splits option.splits sum.splits)

lemma dispatch_run:
  "\<exists>es. trace (snd (dispatch pg env ev s)) = trace s @ es
     \<and> (es = [] \<or> probe_events es \<or> (\<exists>t. extract_tenant (ev_claims ev) = Some t \<and> tenant_session t es))"
proof (cases "ev_path ev = ''/healthcheck'' \<and> ev_method ev = ''GET''")
  case True
  then show ?thesis using healthcheck_run [of pg env s] by (auto simp: dispatch_def)
next
  case False
  show ?thesis
  proof (cases "extract_tenant (ev_claims ev)")
    case None
    with False show ?thesis by (auto simp: dispatch_def)
  next
    case (Some t)
    with False route_run [of t s pg env ev] show ?thesis
      by (auto simp: dispatch_def run_ok_def)
  qed
qed

lemma snd_outcome:
  "snd (case p of (Return r, s2) \<Rightarrow> (r, s2) | (Fallthrough st b, s2) \<Rightarrow> (f st b, s2)) = snd p"
  by (auto split: prod.splits outcome.splits)

lemma handler_run:
  "\<exists>i r. trace (snd (handler pg env ev s)) = trace s @ i @ r \<and> init_events i
     \<and> (r = [] \<or> probe_events r \<or> (\<exists>t. extract_tenant (ev_claims ev) = Some t \<and> tenant_session t r))"
proof (cases "ev_method ev = ''OPTIONS''")
  case True
  then show ?thesis by (simp add: handler_def init_events_def)
next
  case False
  obtain r0 s1 where i: "(if pool s = None then initializePool pg env s else (None, s)) = (r0, s1)"
    by (cases "if pool s = None then initializePool pg env s else (None, s)")
  have "\<exists>es. trace s1 = trace s @ es \<and> init_events es"
    using i initializePool_run [of pg env s] by (auto simp: init_events_def split: if_splits)
  then obtain es where es: "trace s1 = trace s @ es" "init_events es" by blast
  show ?thesis
  proof (cases r0)
    case (Some e)
    with False i es show ?thesis by (auto simp: handler_def)
  next
    case None
    from dispatch_run [of pg env ev s1] obtain r where
      r: "trace (snd (dispatch pg env ev s1)) = trace s1 @ r"
         "r = [] \<or> probe_events r \<or> (\<exists>t. extract_tenant (ev_claims ev) = Some t \<and> tenant_session t r)"
      by blast
    have "snd (handler pg env ev s) = snd (dispatch pg env ev s1)"
      using False i None by (simp add: handler_def snd_outcome)
    with es r show ?thesis by auto
  qed
qed

lemma handler_new_events:
  "\<exists>i r. new_events s (snd (handler pg env ev s)) = i @ r \<and> init_events i
     \<and> (r = [] \<or> probe_events r \<or> (\<exists>t. extract_tenant (ev_claims ev) = Some t \<and> tenant_session t r))"
proof -
  from handler_run [of pg env ev s] obtain i r where
    t: "trace (snd (handler pg env ev s)) = trace s @ i @ r" and
    p: "init_events i"
       "r = [] \<or> probe_events r \<or> (\<exists>t. extract_tenant (ev_claims ev) = Some t \<and> tenant_session t r)"
    by blast
  from t have "new_events s (snd (handler pg env ev s)) = i @ r"
    by (simp add: new_events_def)
  with p show ?thesis by blast
qed

lemma is_directive_directive: "is_search_path_directive (directive t)"
  by (simp add: directive_def is_search_path_directive_def search_path_sql_def)

lemma handler_scoped:
  "case extract_tenant (ev_claims ev) of
     None \<Rightarrow> filter is_search_path_directive (statements (new_events s (snd (handler pg env ev s)))) = []
   | Some t \<Rightarrow> tenant_scoped (directive t) False (new_events s (snd (handler pg env ev s)))
        \<and> (isValidSchemaName t \<or> filter is_search_path_directive (statements (new_events s (snd (handler pg env ev s)))) = [])"
  using handler_new_events [of s pg env ev]
  by (auto simp: init_events_def probe_events_def tenant_session_def is_directive_directive not_directive probes_def
      split: option.splits)

section \<open>Tenant context and connections\<close>

lemma schema_tail_excludes:
  "schema_tail c \<Longrightarrow> c \<noteq> CHR '';'' \<and> c \<noteq> CHR ''-'' \<and> c \<noteq> dquote \<and> \<not> is_white_space c"
  by (auto simp: schema_tail_def is_letter_def is_digit_def in_range_def is_white_space_def dquote_def)

lemma schema_head_tail: "schema_head c \<Longrightarrow> schema_tail c"
  by (auto simp: schema_head_def schema_tail_def)

lemma schema_head_not_digit: "schema_head c \<Longrightarrow> \<not> is_digit c"
  by (auto simp: schema_head_def is_letter_def is_digit_def in_range_def)

lemma valid_all_tail: "isValidSchemaName t \<Longrightarrow> \<forall>c \<in> set t. schema_tail c"
  by (cases t) (auto simp: list_all_iff schema_head_tail)

lemma rejected_examples:
  assumes "CHR '';'' \<in> set t \<or> CHR ''-'' \<in> set t \<or> (\<exists>c \<in> set t. is_white_space c) \<or> (\<exists>c cs. t = c # cs \<and> is_digit c)"
  shows "\<not> isValidSchemaName t"
proof
  assume v: "isValidSchemaName t"
  then have all: "\<forall>c \<in> set t. schema_tail c" by (rule valid_all_tail)
  from assms show False
  proof (elim disjE)
    assume "CHR '';'' \<in> set t"
    with all show False using schema_tail_excludes by blast
  next
    assume "CHR ''-'' \<in> set t"
    with all show False using schema_tail_excludes by blast
  next
    assume "\<exists>c \<in> set t. is_white_space c"
    with all show False using schema_tail_excludes by blast
  next
    assume "\<exists>c cs. t = c # cs \<and> is_digit c"
    then obtain c cs where "t = c # cs" "is_digit c" by blast
    with v show False using schema_head_not_digit by auto
  qed
qed

lemma valid_no_dquote: "isValidSchemaName t \<Longrightarrow> dquote \<notin> set t"
  using valid_all_tail schema_tail_excludes by blast

lemma escapeIdentifier_plain:
  assumes "dquote \<notin> set t"
  shows "escapeIdentifier t = dquote # t @ [dquote]"
proof -
  have "concat (map (\<lambda>c. if c = dquote then [dquote, dquote] else [c]) t) = t"
    using assms by (induction t) auto
  then show ?thesis by (simp add: escapeIdentifier_def)
qed

lemma search_path_sql_valid:
  "isValidSchemaName t \<Longrightarrow> search_path_sql t = ''SET search_path TO '' @ [dquote] @ t @ [dquote] @ '', public;''"
  by (simp add: search_path_sql_def escapeIdentifier_plain valid_no_dquote)

text \<open>
  Claim C1. An identifier that does not match the pattern (for instance one with a
  semicolon, a hyphen or white space in it, or with a digit in front) makes
  \<open>setTenantSearchPath\<close> throw \<^verbatim>\<open>Invalid tenant identifier.\<close> with the connection
  untouched; for an identifier that matches, it sends exactly one statement, the
  \<^verbatim>\<open>SET search_path\<close> to the tenant's schema and \<^verbatim>\<open>public\<close>. In every run of
  the handler, each search-path statement is the one for the request's tenant, no
  borrowed connection receives two, and every statement other than the connectivity
  probes runs on a connection that has received it.
\<close>

theorem tenant_search_path_set_once:
  "(\<not> isValidSchemaName t \<longrightarrow>
      setTenantSearchPath pg t s = (Some (new_Error ''Invalid tenant identifier.''), s))
   \<and> (CHR '';'' \<in> set t \<or> CHR ''-'' \<in> set t \<or> (\<exists>c \<in> set t. is_white_space c) \<or> (\<exists>c cs. t = c # cs \<and> is_digit c)
        \<longrightarrow> \<not> isValidSchemaName t)
   \<and> (isValidSchemaName t \<longrightarrow>
        new_events s (snd (setTenantSearchPath pg t s))
          = [Exec (Stmt (''SET search_path TO '' @ [dquote] @ t @ [dquote] @ '', public;'') [])])
   \<and> (case extract_tenant (ev_claims ev) of
         None \<Rightarrow> filter is_search_path_directive (statements (new_events s (snd (handler pg env ev s)))) = []
       | Some tenant \<Rightarrow>
           tenant_scoped (directive tenant) False (new_events s (snd (handler pg env ev s)))
           \<and> (isValidSchemaName tenant
              \<or> filter is_search_path_directive (statements (new_events s (snd (handler pg env ev s)))) = []))"
proof (intro conjI impI)
  assume "\<not> isValidSchemaName t"
  then show "setTenantSearchPath pg t s = (Some (new_Error ''Invalid tenant identifier.''), s)"
    by (rule setTenantSearchPath_invalid)
next
  assume "CHR '';'' \<in> set t \<or> CHR ''-'' \<in> set t \<or> (\<exists>c \<in> set t. is_white_space c) \<or> (\<exists>c cs. t = c # cs \<and> is_digit c)"
  then show "\<not> isValidSchemaName t" by (rule rejected_examples)
next
  assume v: "isValidSchemaName t"
  obtain r s' where sp: "setTenantSearchPath pg t s = (r, s')" by (cases "setTenantSearchPath pg t s")
  from setTenantSearchPath_valid [OF v sp] sp
  show "new_events s (snd (setTenantSearchPath pg t s))
          = [Exec (Stmt (''SET search_path TO '' @ [dquote] @ t @ [dquote] @ '', public;'') [])]"
    using search_path_sql_valid [OF v] by (simp add: new_events_def directive_def)
next
  show "case extract_tenant (ev_claims ev) of
         None \<Rightarrow> filter is_search_path_directive (statements (new_events s (snd (handler pg env ev s)))) = []
       | Some tenant \<Rightarrow>
           tenant_scoped (directive tenant) False (new_events s (snd (handler pg env ev s)))
           \<and> (isValidSchemaName tenant
              \<or> filter is_search_path_directive (statements (new_events s (snd (handler pg env ev s)))) = [])"
    by (rule handler_scoped)
qed

theorem tenant_search_path_set_once_witness:
  "\<not> isValidSchemaName ''1; DROP--''
   \<and> setTenantSearchPath scripted ''1; DROP--'' (warm []) = (Some (new_Error ''Invalid tenant identifier.''), warm [])
   \<and> isValidSchemaName ''clinic_test''
   \<and> new_events (warm []) (snd (setTenantSearchPath scripted ''clinic_test'' (warm [])))
        = [Exec (Stmt (''SET search_path TO '' @ [dquote] @ ''clinic_test'' @ [dquote] @ '', public;'') [])]
   \<and> extract_tenant (ev_claims (request ''GET'' ''/patients'' NoBody (claims_for ''clinic_test''))) = Some ''clinic_test''
   \<and> tenant_scoped (directive ''clinic_test'') False
        (new_events (warm []) (snd (handler scripted sample_env
            (request ''GET'' ''/patients'' NoBody (claims_for ''clinic_test'')) (warm []))))"
proof -
  have bad: "CHR '';'' \<in> set ''1; DROP--''" by simp
  have good: "isValidSchemaName ''clinic_test''" by (simp add: run_defs)
  have tenant: "extract_tenant (ev_claims (request ''GET'' ''/patients'' NoBody (claims_for ''clinic_test''))) = Some ''clinic_test''"
    by (simp add: run_defs)
  note a = tenant_search_path_set_once [where t = "''1; DROP--''" and pg = scripted and s = "warm []"
      and ev = "request ''GET'' ''/patients'' NoBody (claims_for ''clinic_test'')" and env = sample_env]
  note b = tenant_search_path_set_once [where t = "''clinic_test''" and pg = scripted and s = "warm []"
      and ev = "request ''GET'' ''/patients'' NoBody (claims_for ''clinic_test'')" and env = sample_env]
  from a bad have 1: "\<not> isValidSchemaName ''1; DROP--''" by blast
  with a have 2: "setTenantSearchPath scripted ''1; DROP--'' (warm []) = (Some (new_Error ''Invalid tenant identifier.''), warm [])"
    by blast
  from b good have 3: "new_events (warm []) (snd (setTenantSearchPath scripted ''clinic_test'' (warm [])))
        = [Exec (Stmt (''SET search_path TO '' @ [dquote] @ ''clinic_test'' @ [dquote] @ '', public;'') [])]"
    by blast
  from b tenant have 4: "tenant_scoped (directive ''clinic_test'') False
        (new_events (warm []) (snd (handler scripted sample_env
            (request ''GET'' ''/patients'' NoBody (claims_for ''clinic_test'')) (warm []))))"
    by simp
  from 1 2 good 3 tenant 4 show ?thesis by blast
qed

text \<open>
  Claim C8. In every run of the handler, whatever the request and however the database
  answers, each connection borrowed from the pool is released exactly once.
\<close>

theorem connection_released_once:
  "released_once 0 (new_events s (snd (handler pg env ev s)))"
proof -
  from handler_new_events [of s pg env ev] obtain i r where
    e: "new_events s (snd (handler pg env ev s)) = i @ r" and
    i: "init_events i" and
    r: "r = [] \<or> probe_events r
        \<or> (\<exists>t. extract_tenant (ev_claims ev) = Some t \<and> tenant_session t r)"
    by blast
  from i have pool_test: "released_once 0 (i @ r) = released_once 0 r"
    by (auto simp: init_events_def)
  from r have "released_once 0 r"
    by (auto simp: probe_events_def tenant_session_def)
  with e pool_test show ?thesis by simp
qed

theorem connection_released_once_witness:
  "new_events (warm [Resolves \<lparr>rows = [], rowCount = 0\<rparr>, Resolves \<lparr>rows = [], rowCount = 0\<rparr>,
                     Rejects (new_Error ''connection terminated'')])
     (snd (handler scripted sample_env (request ''GET'' ''/patients'' NoBody (claims_for ''clinic_test''))
        (warm [Resolves \<lparr>rows = [], rowCount = 0\<rparr>, Resolves \<lparr>rows = [], rowCount = 0\<rparr>,
               Rejects (new_Error ''connection terminated'')])))
     = [Borrow, Exec (directive ''clinic_test''), Exec (Stmt list_patients_sql []), Release]
   \<and> released_once 0
       (new_events (warm [Resolves \<lparr>rows = [], rowCount = 0\<rparr>, Resolves \<lparr>rows = [], rowCount = 0\<rparr>,
                     Rejects (new_Error ''connection terminated'')])
         (snd (handler scripted sample_env (request ''GET'' ''/patients'' NoBody (claims_for ''clinic_test''))
            (warm [Resolves \<lparr>rows = [], rowCount = 0\<rparr>, Resolves \<lparr>rows = [], rowCount = 0\<rparr>,
                   Rejects (new_Error ''connection terminated'')]))))"
proof -
  have "new_events (warm [Resolves \<lparr>rows = [], rowCount = 0\<rparr>, Resolves \<lparr>rows = [], rowCount = 0\<rparr>,
                     Rejects (new_Error ''connection terminated'')])
     (snd (handler scripted sample_env (request ''GET'' ''/patients'' NoBody (claims_for ''clinic_test''))
        (warm [Resolves \<lparr>rows = [], rowCount = 0\<rparr>, Resolves \<lparr>rows = [], rowCount = 0\<rparr>,
               Rejects (new_Error ''connection terminated'')])))
     = [Borrow, Exec (directive ''clinic_test''), Exec (Stmt list_patients_sql []), Release]"
    by (simp add: run_defs)
  then show ?thesis
    using connection_released_once [where s = "warm [Resolves \<lparr>rows = [], rowCount = 0\<rparr>, Resolves \<lparr>rows = [], rowCount = 0\<rparr>,
                     Rejects (new_Error ''connection terminated'')]" and pg = scripted and env = sample_env
        and ev = "request ''GET'' ''/patients'' NoBody (claims_for ''clinic_test'')"]
    by simp
qed

section \<open>Routing\<close>

lemma extract_tenant_unusable:
  "(\<forall>t. get_prop claims ''custom:clinic_id'' = Str t \<longrightarrow> trim t = []) \<Longrightarrow> extract_tenant claims = None"
  by (auto simp: extract_tenant_def split: jsval.splits)

lemma initializePool_cases:
  "pool s = None \<Longrightarrow>
     (case initializePool pg env s of
        (Some e, s1) \<Rightarrow> pool s1 = None
      | (None, s1) \<Rightarrow> pool s1 \<noteq> None \<and> new_events s s1 = [Borrow, Exec (Stmt ''SELECT NOW()'' []), Release])"
  by (auto simp: initializePool_def new_events_def client_release_def pool_connect_def client_query_def
      split: prod.splits option.splits sum.splits)

lemma handler_warm:
  assumes "ev_method ev \<noteq> ''OPTIONS''" and "pool s \<noteq> None"
  shows "handler pg env ev s =
     (case dispatch pg env ev s of
        (Return r, s2) \<Rightarrow> (r, s2)
      | (Fallthrough st b, s2) \<Rightarrow> (\<lparr>statusCode = st, headers = finalHeaders env, body = Json b\<rparr>, s2))"
proof (cases "pool s")
  case None
  with assms(2) show ?thesis by simp
next
  case (Some c)
  with assms(1) show ?thesis by (simp add: handler_def)
qed

text \<open>
  Claim C3, as amended. Take a request that is neither an \<^verbatim>\<open>OPTIONS\<close> request nor
  \<^verbatim>\<open>GET /healthcheck\<close> and whose claims carry no usable tenant identifier: the claim
  \<^verbatim>\<open>custom:clinic_id\<close> is absent, is not a string, or is empty after trimming. When the
  pool exists, the handler answers 400 and leaves the database untouched. When the pool
  does not exist yet, the handler initialises it first: if that fails the answer is 500;
  if it succeeds, by one borrowed connection, \<^verbatim>\<open>SELECT NOW()\<close> and the release, the
  answer is the same 400 with no further database access.
\<close>

theorem missing_tenant_rejected:
  assumes "ev_method ev \<noteq> ''OPTIONS''"
    and "\<not> (ev_path ev = ''/healthcheck'' \<and> ev_method ev = ''GET'')"
    and "\<forall>t. get_prop (ev_claims ev) ''custom:clinic_id'' = Str t \<longrightarrow> trim t = []"
  shows "(pool s \<noteq> None \<longrightarrow>
            handler pg env ev s =
              (\<lparr>statusCode = 400, headers = cors_headers env,
                body = Json (Obj [(''message'', Str ''Bad Request: Tenant identifier missing or invalid in user token.'')])\<rparr>, s))
       \<and> (pool s = None \<longrightarrow>
            (case initializePool pg env s of
               (Some initError, s1) \<Rightarrow>
                 handler pg env ev s =
                   (\<lparr>statusCode = 500, headers = cors_headers env,
                     body = Json (Obj [(''message'', Str ''Internal Server Error: Could not connect to database.''),
                                       (''error'', Str (message initError))])\<rparr>, s1)
             | (None, s1) \<Rightarrow>
                 handler pg env ev s =
                   (\<lparr>statusCode = 400, headers = cors_headers env,
                     body = Json (Obj [(''message'', Str ''Bad Request: Tenant identifier missing or invalid in user token.'')])\<rparr>, s1)
                 \<and> new_events s s1 = [Borrow, Exec (Stmt ''SELECT NOW()'' []), Release]))"
proof -
  have none: "extract_tenant (ev_claims ev) = None"
    using assms(3) by (rule extract_tenant_unusable)
  have d: "\<And>s1. dispatch pg env ev s1 =
      (Return (bad_request env ''Bad Request: Tenant identifier missing or invalid in user token.''), s1)"
    using assms(2) none by (auto simp: dispatch_def)
  show ?thesis
  proof (intro conjI impI)
    assume "pool s \<noteq> None"
    then show "handler pg env ev s =
              (\<lparr>statusCode = 400, headers = cors_headers env,
                body = Json (Obj [(''message'', Str ''Bad Request: Tenant identifier missing or invalid in user token.'')])\<rparr>, s)"
      using assms(1) d by (simp add: handler_warm bad_request_def msg_def)
  next
    assume cold: "pool s = None"
    show "case initializePool pg env s of
               (Some initError, s1) \<Rightarrow>
                 handler pg env ev s =
                   (\<lparr>statusCode = 500, headers = cors_headers env,
                     body = Json (Obj [(''message'', Str ''Internal Server Error: Could not connect to database.''),
                                       (''error'', Str (message initError))])\<rparr>, s1)
             | (None, s1) \<Rightarrow>
                 handler pg env ev s =
                   (\<lparr>statusCode = 400, headers = cors_headers env,
                     body = Json (Obj [(''message'', Str ''Bad Request: Tenant identifier missing or invalid in user token.'')])\<rparr>, s1)
                 \<and> new_events s s1 = [Borrow, Exec (Stmt ''SELECT NOW()'' []), Release]"
      using initializePool_cases [OF cold, of pg env] assms(1) cold d
      by (auto simp: handler_def bad_request_def msg_def msg_error_def split: prod.splits option.splits)
  qed
qed

text \<open>
  On a cold process the rejection comes after the pool test has used the database, and
  a failed pool test is answered 500.
\<close>

theorem missing_tenant_cold_start_counterexample:
  "ev_method (request ''GET'' ''/patients'' NoBody Undefined) \<noteq> ''OPTIONS''
   \<and> ev_path (request ''GET'' ''/patients'' NoBody Undefined) \<noteq> ''/healthcheck''
   \<and> get_prop (ev_claims (request ''GET'' ''/patients'' NoBody Undefined)) ''custom:clinic_id'' = Undefined
   \<and> statusCode (fst (handler scripted sample_env (request ''GET'' ''/patients'' NoBody Undefined) (cold []))) = 400
   \<and> new_events (cold []) (snd (handler scripted sample_env (request ''GET'' ''/patients'' NoBody Undefined) (cold [])))
        = [Borrow, Exec (Stmt ''SELECT NOW()'' []), Release]
   \<and> statusCode (fst (handler scripted sample_env (request ''GET'' ''/patients'' NoBody Undefined)
                        (cold [Rejects (new_Error ''timeout'')]))) = 500"
  by (simp add: run_defs)

lemma probe_succeeds_healthcheck:
  "fst (healthcheck pg env s) = Return
      \<lparr>statusCode = 200, headers = cors_headers env,
       body = Json (Obj [(''status'', Str ''OK''),
                         (''database_status'', Str (if probe_succeeds pg (db s) then ''OK'' else ''Unavailable'')),
                         (''timestamp'', Str (now_iso env))])\<rparr>"
  by (auto simp: healthcheck_def probe_succeeds_def Let_def pool_connect_def client_query_def
      split: prod.splits option.splits sum.splits)

text \<open>
  Claim C9. When \<^verbatim>\<open>GET /healthcheck\<close> is reached with the pool in place, the handler
  answers 200 whether the probe succeeds or not; a failed probe shows only as
  \<^verbatim>\<open>database_status: 'Unavailable'\<close> in the body.
\<close>

theorem healthcheck_always_200:
  assumes "ev_path ev = ''/healthcheck''" and "ev_method ev = ''GET''" and "pool s \<noteq> None"
  shows "fst (handler pg env ev s) =
      \<lparr>statusCode = 200, headers = cors_headers env,
       body = Json (Obj [(''status'', Str ''OK''),
                         (''database_status'', Str (if probe_succeeds pg (db s) then ''OK'' else ''Unavailable'')),
                         (''timestamp'', Str (now_iso env))])\<rparr>"
proof -
  have "dispatch pg env ev s = healthcheck pg env s"
    using assms by (simp add: dispatch_def)
  moreover obtain out s' where h: "healthcheck pg env s = (out, s')"
    by (cases "healthcheck pg env s")
  moreover from h probe_succeeds_healthcheck [of pg env s] have "out = Return
      \<lparr>statusCode = 200, headers = cors_headers env,
       body = Json (Obj [(''status'', Str ''OK''),
                         (''database_status'', Str (if probe_succeeds pg (db s) then ''OK'' else ''Unavailable'')),
                         (''timestamp'', Str (now_iso env))])\<rparr>"
    by simp
  ultimately show ?thesis
    using assms by (simp add: handler_warm)
qed


theorem missing_tenant_rejected_witness:
  "handler scripted sample_env (request ''GET'' ''/patients'' NoBody (claims_for ''  '')) (warm [])
     = (\<lparr>statusCode = 400, headers = cors_headers sample_env,
         body = Json (Obj [(''message'', Str ''Bad Request: Tenant identifier missing or invalid in user token.'')])\<rparr>,
        warm [])
   \<and> fst (handler scripted sample_env (request ''GET'' ''/patients'' NoBody (claims_for ''  '')) (cold []))
     = \<lparr>statusCode = 400, headers = cors_headers sample_env,
        body = Json (Obj [(''message'', Str ''Bad Request: Tenant identifier missing or invalid in user token.'')])\<rparr>
   \<and> fst (handler scripted sample_env (request ''GET'' ''/patients'' NoBody (claims_for ''  ''))
            (cold [Rejects (new_Error ''timeout'')]))
     = \<lparr>statusCode = 500, headers = cors_headers sample_env,
        body = Json (Obj [(''message'', Str ''Internal Server Error: Could not connect to database.''),
                          (''error'', Str ''timeout'')])\<rparr>"
proof -
  let ?ev = "request ''GET'' ''/patients'' NoBody (claims_for ''  '')"
  have m: "ev_method ?ev \<noteq> ''OPTIONS''" by (simp add: request_def)
  have p: "\<not> (ev_path ?ev = ''/healthcheck'' \<and> ev_method ?ev = ''GET'')" by (simp add: request_def)
  have c: "\<forall>t. get_prop (ev_claims ?ev) ''custom:clinic_id'' = Str t \<longrightarrow> trim t = []"
    by (simp add: request_def claims_for_def trim_def is_white_space_def)
  have w: "pool (warm ([] :: reply list)) \<noteq> None" by (simp add: warm_def)
  have k: "pool (cold ([] :: reply list)) = None" "pool (cold [Rejects (new_Error ''timeout'')]) = None"
    by (simp_all add: cold_def)
  have i1: "initializePool scripted sample_env (cold []) =
      (None, \<lparr>pool = Some sample_credentials, db = [], trace = [Borrow, Exec (Stmt ''SELECT NOW()'' []), Release]\<rparr>)"
    by (simp add: run_defs)
  have i2: "initializePool scripted sample_env (cold [Rejects (new_Error ''timeout'')]) =
      (Some (new_Error ''timeout''), \<lparr>pool = None, db = [], trace = [ConnectFailed]\<rparr>)"
    by (simp add: run_defs)
  from missing_tenant_rejected [OF m p c, where s = "warm []" and pg = scripted and env = sample_env] w
  have 1: "handler scripted sample_env ?ev (warm [])
     = (\<lparr>statusCode = 400, headers = cors_headers sample_env,
         body = Json (Obj [(''message'', Str ''Bad Request: Tenant identifier missing or invalid in user token.'')])\<rparr>,
        warm [])" by blast
  from missing_tenant_rejected [OF m p c, where s = "cold []" and pg = scripted and env = sample_env] k i1
  have 2: "fst (handler scripted sample_env ?ev (cold []))
     = \<lparr>statusCode = 400, headers = cors_headers sample_env,
        body = Json (Obj [(''message'', Str ''Bad Request: Tenant identifier missing or invalid in user token.'')])\<rparr>"
    by simp
  from missing_tenant_rejected [OF m p c, where s = "cold [Rejects (new_Error ''timeout'')]" and pg = scripted
      and env = sample_env] k i2
  have 3: "fst (handler scripted sample_env ?ev (cold [Rejects (new_Error ''timeout'')]))
     = \<lparr>statusCode = 500, headers = cors_headers sample_env,
        body = Json (Obj [(''message'', Str ''Internal Server Error: Could not connect to database.''),
                          (''error'', Str ''timeout'')])\<rparr>"
    by (simp add: new_Error_def)
  from 1 2 3 show ?thesis by blast
qed

theorem healthcheck_always_200_witness:
  "\<not> probe_succeeds scripted [Rejects (new_Error ''timeout'')]
   \<and> fst (handler scripted sample_env (request ''GET'' ''/healthcheck'' NoBody Undefined)
            (warm [Rejects (new_Error ''timeout'')]))
     = \<lparr>statusCode = 200, headers = cors_headers sample_env,
        body = Json (Obj [(''status'', Str ''OK''), (''database_status'', Str ''Unavailable''),
                          (''timestamp'', Str (now_iso sample_env))])\<rparr>"
proof -
  let ?ev = "request ''GET'' ''/healthcheck'' NoBody Undefined"
  have p: "ev_path ?ev = ''/healthcheck''" and m: "ev_method ?ev = ''GET''" by (simp_all add: request_def)
  have w: "pool (warm [Rejects (new_Error ''timeout'')]) \<noteq> None" by (simp add: warm_def)
  have d: "\<not> probe_succeeds scripted [Rejects (new_Error ''timeout'')]"
    by (simp add: probe_succeeds_def scripted_def)
  from healthcheck_always_200 [OF p m w, where pg = scripted and env = sample_env] d
  show ?thesis by (simp add: warm_def)
qed

lemma starts_with_append: "starts_with t p \<Longrightarrow> \<exists>cs. t = p @ cs"
  by (induction t p rule: starts_with.induct) auto

text \<open>
  Claim C2. The handler has no route for \<^verbatim>\<open>POST /queue\<close> nor for
  \<^verbatim>\<open>DELETE /queue/{id}\<close>: with the pool in place and a tenant identifier in the claims,
  both fall through to the unknown-path branch, which answers 404 \<^verbatim>\<open>Not Found\<close> and
  does not touch the database.
\<close>

theorem queue_writes_not_routed:
  assumes "pool s \<noteq> None" and "extract_tenant (ev_claims ev) = Some tenantSchema"
    and "(ev_method ev = ''POST'' \<and> ev_path ev = ''/queue'')
         \<or> (ev_method ev = ''DELETE'' \<and> starts_with (ev_path ev) ''/queue/'')"
  shows "handler pg env ev s =
     (\<lparr>statusCode = 404, headers = finalHeaders env,
       body = Json (Obj [(''message'', Str ''Not Found''), (''requestedPath'', Str (ev_path ev))])\<rparr>, s)"
proof -
  have r: "route pg env ev tenantSchema s =
      (Fallthrough 404 (Obj [(''message'', Str ''Not Found''), (''requestedPath'', Str (ev_path ev))]), s)"
    using assms(3)
  proof
    assume "ev_method ev = ''POST'' \<and> ev_path ev = ''/queue''"
    then show ?thesis by (simp add: route_def)
  next
    assume d: "ev_method ev = ''DELETE'' \<and> starts_with (ev_path ev) ''/queue/''"
    then obtain cs where "ev_path ev = ''/queue/'' @ cs" using starts_with_append by blast
    with d show ?thesis by (simp add: route_def)
  qed
  have m: "ev_method ev \<noteq> ''OPTIONS''" using assms(3) by auto
  have "dispatch pg env ev s = route pg env ev tenantSchema s"
    using assms(2,3) by (auto simp: dispatch_def)
  with r m assms(1) show ?thesis by (simp add: handler_warm)
qed

theorem queue_writes_not_routed_witness:
  "handler scripted sample_env
      (request ''POST'' ''/queue'' (Parsed (Obj [(''patientId'', Str ''p-1'')])) (claims_for ''clinic_test'')) (warm [])
     = (\<lparr>statusCode = 404, headers = finalHeaders sample_env,
         body = Json (Obj [(''message'', Str ''Not Found''), (''requestedPath'', Str ''/queue'')])\<rparr>, warm [])
   \<and> handler scripted sample_env
      (request ''DELETE'' ''/queue/q-1'' NoBody (claims_for ''clinic_test'')) (warm [])
     = (\<lparr>statusCode = 404, headers = finalHeaders sample_env,
         body = Json (Obj [(''message'', Str ''Not Found''), (''requestedPath'', Str ''/queue/q-1'')])\<rparr>, warm [])"
proof -
  let ?post = "request ''POST'' ''/queue'' (Parsed (Obj [(''patientId'', Str ''p-1'')])) (claims_for ''clinic_test'')"
  let ?del = "request ''DELETE'' ''/queue/q-1'' NoBody (claims_for ''clinic_test'')"
  have w: "pool (warm ([] :: reply list)) \<noteq> None" by (simp add: warm_def)
  have t: "extract_tenant (ev_claims ?post) = Some ''clinic_test''" "extract_tenant (ev_claims ?del) = Some ''clinic_test''"
    by (simp_all add: run_defs)
  have a: "(ev_method ?post = ''POST'' \<and> ev_path ?post = ''/queue'')
         \<or> (ev_method ?post = ''DELETE'' \<and> starts_with (ev_path ?post) ''/queue/'')"
    by (simp add: request_def)
  have b: "(ev_method ?del = ''POST'' \<and> ev_path ?del = ''/queue'')
         \<or> (ev_method ?del = ''DELETE'' \<and> starts_with (ev_path ?del) ''/queue/'')"
    by (simp add: request_def)
  from queue_writes_not_routed [OF w t(1) a, where pg = scripted and env = sample_env]
       queue_writes_not_routed [OF w t(2) b, where pg = scripted and env = sample_env]
  show ?thesis by (simp add: request_def)
qed

section \<open>Creating patients and notes\<close>

lemma statements_append: "statements (xs @ ys) = statements xs @ statements ys"
  by (induction xs rule: statements.induct) auto

lemma with_tenant_client_statements:
  "\<exists>es. trace (snd (with_tenant_client pg t (query_then pg q k) s)) = trace s @ es
       \<and> set (statements es) \<subseteq> {directive t, q}"
  by (auto simp: with_tenant_client_def setTenantSearchPath_def query_then_def pool_connect_def
      client_query_def client_release_def directive_def
      split: prod.splits option.splits sum.splits)

lemma handler_dispatch:
  assumes "ev_method ev \<noteq> ''OPTIONS''"
  shows "\<exists>i s1. init_events i \<and> trace s1 = trace s @ i
     \<and> (snd (handler pg env ev s) = s1 \<or> snd (handler pg env ev s) = snd (dispatch pg env ev s1))"
proof -
  obtain r0 s1 where i: "(if pool s = None then initializePool pg env s else (None, s)) = (r0, s1)"
    by (cases "if pool s = None then initializePool pg env s else (None, s)")
  have "\<exists>es. trace s1 = trace s @ es \<and> init_events es"
    using i initializePool_run [of pg env s] by (auto simp: init_events_def split: if_splits)
  then obtain es where es: "trace s1 = trace s @ es" "init_events es" by blast
  have "snd (handler pg env ev s) = s1 \<or> snd (handler pg env ev s) = snd (dispatch pg env ev s1)"
    using assms i by (cases r0) (simp_all add: handler_def snd_outcome)
  with es show ?thesis by blast
qed

lemma post_patients_statements:
  "\<exists>es. trace (snd (post_patients pg ev t s)) = trace s @ es
     \<and> set (statements es) \<subseteq> {directive t, Stmt insert_patient_sql (insert_patient_values (body_or_empty (ev_body ev)))}
     \<and> (missing_required (body_or_empty (ev_body ev)) \<longrightarrow> es = [])"
proof -
  let ?b = "body_or_empty (ev_body ev)"
  have n: "nullish ?b \<Longrightarrow> missing_required ?b"
    by (cases ?b) (simp_all add: missing_required_def)
  show ?thesis
  proof (cases "(\<exists>m. ev_body ev = Unparseable m) \<or> missing_required ?b")
    case True
    then have "snd (post_patients pg ev t s) = s"
      by (auto simp: post_patients_def Let_def split: body_input.splits)
    then show ?thesis by simp
  next
    case False
    let ?q = "Stmt insert_patient_sql (insert_patient_values ?b)"
    let ?k = "\<lambda>result. case rows result of
                      [] \<Rightarrow> Inl (new_Error ''Failed to retrieve created patient details after insert.'')
                    | newPatient # _ \<Rightarrow>
                        Inr (Fallthrough 201
                               (Obj [(''message'', Str ''Patient created successfully.''),
                                     (''patientId'', get_prop (Obj newPatient) ''patient_id'')]))"
    from False n have eq: "snd (post_patients pg ev t s) = snd (with_tenant_client pg t (query_then pg ?q ?k) s)"
      by (auto simp: post_patients_def Let_def snd_catch_id split: body_input.splits)
    from with_tenant_client_statements [of pg t ?q ?k s] obtain es where
      "trace (snd (with_tenant_client pg t (query_then pg ?q ?k) s)) = trace s @ es"
      "set (statements es) \<subseteq> {directive t, ?q}" by blast
    with eq False show ?thesis by simp
  qed
qed

lemma handler_route_events:
  assumes "ev_method ev \<noteq> ''OPTIONS''"
    and "\<not> (ev_path ev = ''/healthcheck'' \<and> ev_method ev = ''GET'')"
    and "\<And>t s1. extract_tenant (ev_claims ev) = Some t \<Longrightarrow>
           \<exists>r. trace (snd (route pg env ev t s1)) = trace s1 @ r \<and> P t r"
  shows "\<exists>i r. new_events s (snd (handler pg env ev s)) = i @ r \<and> init_events i
     \<and> (r = [] \<or> (\<exists>t. extract_tenant (ev_claims ev) = Some t \<and> P t r))"
proof -
  from handler_dispatch [OF assms(1), of s pg env] obtain i s1 where
    i: "init_events i" "trace s1 = trace s @ i" and
    d: "snd (handler pg env ev s) = s1 \<or> snd (handler pg env ev s) = snd (dispatch pg env ev s1)"
    by blast
  have "\<exists>r. trace (snd (dispatch pg env ev s1)) = trace s1 @ r
     \<and> (r = [] \<or> (\<exists>t. extract_tenant (ev_claims ev) = Some t \<and> P t r))"
  proof (cases "extract_tenant (ev_claims ev)")
    case None
    with assms(2) show ?thesis by (auto simp: dispatch_def)
  next
    case (Some t)
    with assms(2) have "dispatch pg env ev s1 = route pg env ev t s1"
      by (auto simp: dispatch_def)
    with Some assms(3) [OF Some, of s1] show ?thesis by auto
  qed
  then obtain r where r: "trace (snd (dispatch pg env ev s1)) = trace s1 @ r"
     "r = [] \<or> (\<exists>t. extract_tenant (ev_claims ev) = Some t \<and> P t r)" by blast
  from d show ?thesis
  proof
    assume "snd (handler pg env ev s) = s1"
    with i have "new_events s (snd (handler pg env ev s)) = i @ []" by (simp add: new_events_def)
    with i show ?thesis by (intro exI [of _ i] exI [of _ "[]"]) simp
  next
    assume "snd (handler pg env ev s) = snd (dispatch pg env ev s1)"
    with i r have "new_events s (snd (handler pg env ev s)) = i @ r" by (simp add: new_events_def)
    with i r show ?thesis by blast
  qed
qed

lemma init_statements: "init_events i \<Longrightarrow> set (statements i) \<subseteq> {Stmt ''SELECT NOW()'' []}"
  by (auto simp: init_events_def)

lemma insert_patient_distinct:
  "Stmt insert_patient_sql ps \<noteq> Stmt ''SELECT NOW()'' []"
  "Stmt insert_patient_sql ps \<noteq> directive t"
  by (simp_all add: insert_patient_sql_def directive_def search_path_sql_def)

lemma insert_patient_issued:
  assumes "ev_method ev = ''POST''" and "ev_path ev = ''/patients''"
    and "Stmt insert_patient_sql ps \<in> set (statements (new_events s (snd (handler pg env ev s))))"
  shows "ps = insert_patient_values (body_or_empty (ev_body ev))
     \<and> \<not> missing_required (body_or_empty (ev_body ev))"
proof -
  let ?P = "\<lambda>t r. set (statements r) \<subseteq>
        {directive t, Stmt insert_patient_sql (insert_patient_values (body_or_empty (ev_body ev)))}
      \<and> (missing_required (body_or_empty (ev_body ev)) \<longrightarrow> r = [])"
  have m: "ev_method ev \<noteq> ''OPTIONS''" and h: "\<not> (ev_path ev = ''/healthcheck'' \<and> ev_method ev = ''GET'')"
    using assms(1,2) by simp_all
  have "\<And>t s1. extract_tenant (ev_claims ev) = Some t \<Longrightarrow>
           \<exists>r. trace (snd (route pg env ev t s1)) = trace s1 @ r \<and> ?P t r"
    using assms(1,2) post_patients_statements by (simp add: route_def)
  from handler_route_events [of ev pg env ?P s, OF m h this] obtain i r where
    e: "new_events s (snd (handler pg env ev s)) = i @ r" "init_events i"
       "r = [] \<or> (\<exists>t. extract_tenant (ev_claims ev) = Some t \<and> ?P t r)" by blast
  from assms(3) e(1) have "Stmt insert_patient_sql ps \<in> set (statements i) \<union> set (statements r)"
    by (simp add: statements_append)
  with init_statements [OF e(2)] insert_patient_distinct(1) [of ps]
  have in_r: "Stmt insert_patient_sql ps \<in> set (statements r)" by blast
  then have "r \<noteq> []" by auto
  with e(3) obtain t where p: "?P t r" by blast
  with in_r insert_patient_distinct(2) have "ps = insert_patient_values (body_or_empty (ev_body ev))"
    by blast
  moreover from in_r p have "\<not> missing_required (body_or_empty (ev_body ev))" by auto
  ultimately show ?thesis by blast
qed

lemma finalHeaders_cors: "finalHeaders env = cors_headers env"
  by (simp add: finalHeaders_def cors_headers_def spread_def)

lemma handler_cases:
  assumes "ev_method ev \<noteq> ''OPTIONS''"
  shows "(\<exists>s1. statusCode (fst (handler pg env ev s)) = 500 \<and> snd (handler pg env ev s) = s1
            \<and> set (statements (new_events s s1)) \<subseteq> {Stmt ''SELECT NOW()'' []})
       \<or> (\<exists>i s1. init_events i \<and> trace s1 = trace s @ i
            \<and> handler pg env ev s =
                (case dispatch pg env ev s1 of
                   (Return r, s2) \<Rightarrow> (r, s2)
                 | (Fallthrough status responseBody, s2) \<Rightarrow>
                     (\<lparr>statusCode = status, headers = finalHeaders env, body = Json responseBody\<rparr>, s2)))"
proof -
  obtain r0 s1 where i: "(if pool s = None then initializePool pg env s else (None, s)) = (r0, s1)"
    by (cases "if pool s = None then initializePool pg env s else (None, s)")
  have "\<exists>es. trace s1 = trace s @ es \<and> init_events es"
    using i initializePool_run [of pg env s] by (auto simp: init_events_def split: if_splits)
  then obtain es where es: "trace s1 = trace s @ es" "init_events es" by blast
  show ?thesis
  proof (cases r0)
    case None
    with i assms have "handler pg env ev s =
                (case dispatch pg env ev s1 of
                   (Return r, s2) \<Rightarrow> (r, s2)
                 | (Fallthrough status responseBody, s2) \<Rightarrow>
                     (\<lparr>statusCode = status, headers = finalHeaders env, body = Json responseBody\<rparr>, s2))"
      by (simp add: handler_def)
    with es show ?thesis by blast
  next
    case (Some e)
    with i assms have "statusCode (fst (handler pg env ev s)) = 500" "snd (handler pg env ev s) = s1"
      by (simp_all add: handler_def)
    moreover from es init_statements [OF es(2)] have "set (statements (new_events s s1)) \<subseteq> {Stmt ''SELECT NOW()'' []}"
      by (simp add: new_events_def)
    ultimately show ?thesis by blast
  qed
qed

lemma post_patients_missing:
  assumes "missing_required (body_or_empty (ev_body ev))" and "\<not> nullish (body_or_empty (ev_body ev))"
  shows "post_patients pg ev t s =
     (Fallthrough 400 (msg (case ev_body ev of
          Unparseable m \<Rightarrow> ''Bad Request: Invalid JSON format in request body.''
        | _ \<Rightarrow> ''Bad Request: Missing required patient fields (first_name, last_name, date_of_birth).'')), s)"
  using assms by (auto simp: post_patients_def Let_def split: body_input.splits)

text \<open>
  Claim C5, as amended. A \<^verbatim>\<open>POST /patients\<close> request whose body lacks a truthy
  \<^verbatim>\<open>first_name\<close>, \<^verbatim>\<open>last_name\<close> or \<^verbatim>\<open>date_of_birth\<close> never leads to the \<^verbatim>\<open>INSERT\<close>
  statement, whatever the pool, the claims and the database do. When the body is not the
  JSON value \<^verbatim>\<open>null\<close>, the answer is 400 with a bad-request message as soon as the pool
  is there: at once and with the database untouched when the pool exists, and after the
  pool test (one borrowed connection, \<^verbatim>\<open>SELECT NOW()\<close>, the release) on a cold start
  that succeeds. A cold start whose pool initialisation fails is answered 500 before the
  body is looked at.
\<close>

theorem missing_required_field_rejected:
  assumes "ev_method ev = ''POST''" and "ev_path ev = ''/patients''"
    and "\<not> truthy (get_prop (body_or_empty (ev_body ev)) ''first_name'')
         \<or> \<not> truthy (get_prop (body_or_empty (ev_body ev)) ''last_name'')
         \<or> \<not> truthy (get_prop (body_or_empty (ev_body ev)) ''date_of_birth'')"
  shows "(\<forall>ps. Stmt insert_patient_sql ps \<notin> set (statements (new_events s (snd (handler pg env ev s)))))
     \<and> (pool s \<noteq> None \<and> \<not> nullish (body_or_empty (ev_body ev)) \<longrightarrow>
          handler pg env ev s =
            (\<lparr>statusCode = 400, headers = cors_headers env,
              body = Json (Obj [(''message'', Str
                (if extract_tenant (ev_claims ev) = None
                 then ''Bad Request: Tenant identifier missing or invalid in user token.''
                 else (case ev_body ev of
                         Unparseable m \<Rightarrow> ''Bad Request: Invalid JSON format in request body.''
                       | _ \<Rightarrow> ''Bad Request: Missing required patient fields (first_name, last_name, date_of_birth).'')))])\<rparr>,
             s))
     \<and> (pool s = None \<longrightarrow>
          (case initializePool pg env s of
             (Some initError, s1) \<Rightarrow>
               handler pg env ev s =
                 (\<lparr>statusCode = 500, headers = cors_headers env,
                   body = Json (Obj [(''message'', Str ''Internal Server Error: Could not connect to database.''),
                                     (''error'', Str (message initError))])\<rparr>, s1)
           | (None, s1) \<Rightarrow>
               new_events s s1 = [Borrow, Exec (Stmt ''SELECT NOW()'' []), Release]
               \<and> (\<not> nullish (body_or_empty (ev_body ev)) \<longrightarrow>
                    handler pg env ev s =
                      (\<lparr>statusCode = 400, headers = cors_headers env,
                        body = Json (Obj [(''message'', Str
                          (if extract_tenant (ev_claims ev) = None
                           then ''Bad Request: Tenant identifier missing or invalid in user token.''
                           else (case ev_body ev of
                                   Unparseable m \<Rightarrow> ''Bad Request: Invalid JSON format in request body.''
                                 | _ \<Rightarrow> ''Bad Request: Missing required patient fields (first_name, last_name, date_of_birth).'')))])\<rparr>,
                       s1))))"
proof -
  let ?b = "body_or_empty (ev_body ev)"
  let ?r = "\<lparr>statusCode = 400, headers = cors_headers env,
              body = Json (Obj [(''message'', Str
                (if extract_tenant (ev_claims ev) = None
                 then ''Bad Request: Tenant identifier missing or invalid in user token.''
                 else (case ev_body ev of
                         Unparseable m \<Rightarrow> ''Bad Request: Invalid JSON format in request body.''
                       | _ \<Rightarrow> ''Bad Request: Missing required patient fields (first_name, last_name, date_of_birth).'')))])\<rparr>"
  from assms(3) have mr: "missing_required ?b" by (simp add: missing_required_def)
  have m: "ev_method ev \<noteq> ''OPTIONS''" using assms(1) by simp
  have no_insert: "\<forall>ps. Stmt insert_patient_sql ps \<notin> set (statements (new_events s (snd (handler pg env ev s))))"
    using insert_patient_issued [OF assms(1,2), of _ s pg env] mr by blast
  have routed: "(case dispatch pg env ev s1 of
        (Return r, s2) \<Rightarrow> (r, s2)
      | (Fallthrough st b, s2) \<Rightarrow> (\<lparr>statusCode = st, headers = finalHeaders env, body = Json b\<rparr>, s2)) = (?r, s1)"
    if n: "\<not> nullish ?b" for s1
  proof (cases "extract_tenant (ev_claims ev)")
    case None
    with assms(1,2) have "dispatch pg env ev s1 =
        (Return (bad_request env ''Bad Request: Tenant identifier missing or invalid in user token.''), s1)"
      by (simp add: dispatch_def)
    with None show ?thesis by (simp add: bad_request_def msg_def)
  next
    case (Some t)
    with assms(1,2) have "dispatch pg env ev s1 = post_patients pg ev t s1"
      by (simp add: dispatch_def route_def)
    with post_patients_missing [OF mr n, of pg t s1] Some show ?thesis
      by (simp add: finalHeaders_cors msg_def)
  qed
  have warm_case: "pool s \<noteq> None \<and> \<not> nullish ?b \<longrightarrow> handler pg env ev s = (?r, s)"
    using routed [of s] m by (simp add: handler_warm)
  have cold_case: "pool s = None \<longrightarrow>
          (case initializePool pg env s of
             (Some initError, s1) \<Rightarrow>
               handler pg env ev s =
                 (\<lparr>statusCode = 500, headers = cors_headers env,
                   body = Json (Obj [(''message'', Str ''Internal Server Error: Could not connect to database.''),
                                     (''error'', Str (message initError))])\<rparr>, s1)
           | (None, s1) \<Rightarrow>
               new_events s s1 = [Borrow, Exec (Stmt ''SELECT NOW()'' []), Release]
               \<and> (\<not> nullish ?b \<longrightarrow> handler pg env ev s = (?r, s1)))"
  proof
    assume cold: "pool s = None"
    obtain r0 s1 where i: "initializePool pg env s = (r0, s1)" by (cases "initializePool pg env s")
    show "case initializePool pg env s of
             (Some initError, s1) \<Rightarrow>
               handler pg env ev s =
                 (\<lparr>statusCode = 500, headers = cors_headers env,
                   body = Json (Obj [(''message'', Str ''Internal Server Error: Could not connect to database.''),
                                     (''error'', Str (message initError))])\<rparr>, s1)
           | (None, s1) \<Rightarrow>
               new_events s s1 = [Borrow, Exec (Stmt ''SELECT NOW()'' []), Release]
               \<and> (\<not> nullish ?b \<longrightarrow> handler pg env ev s = (?r, s1))"
    proof (cases r0)
      case (Some e)
      with i m cold show ?thesis by (simp add: handler_def msg_error_def)
    next
      case None
      from initializePool_cases [OF cold, of pg env] i None
      have "new_events s s1 = [Borrow, Exec (Stmt ''SELECT NOW()'' []), Release]" by simp
      moreover have "handler pg env ev s = (?r, s1)" if "\<not> nullish ?b"
        using routed [OF that, of s1] i None m cold by (simp add: handler_def)
      ultimately show ?thesis using i None by simp
    qed
  qed
  from no_insert warm_case cold_case show ?thesis by blast
qed

text \<open>
  A body without \<^verbatim>\<open>date_of_birth\<close> on a cold start whose pool test fails is answered
  500, not 400. Apart from that, the body \<^verbatim>\<open>null\<close> is answered 500 as well: reading
  \<^verbatim>\<open>body.first_name\<close> throws before the check of the required fields.
\<close>

theorem missing_required_field_counterexample:
  "\<not> truthy (get_prop (body_or_empty (Parsed (Obj [(''first_name'', Str ''Jane''), (''last_name'', Str ''Doe'')])))
        ''date_of_birth'')
   \<and> fst (handler scripted sample_env
        (request ''POST'' ''/patients'' (Parsed (Obj [(''first_name'', Str ''Jane''), (''last_name'', Str ''Doe'')]))
           (claims_for ''clinic_test'')) (cold [Rejects (new_Error ''timeout'')]))
      = \<lparr>statusCode = 500, headers = cors_headers sample_env,
         body = Json (Obj [(''message'', Str ''Internal Server Error: Could not connect to database.''),
                           (''error'', Str ''timeout'')])\<rparr>
   \<and> \<not> truthy (get_prop (body_or_empty (Parsed Null)) ''first_name'')
   \<and> statusCode (fst (handler scripted sample_env
        (request ''POST'' ''/patients'' (Parsed Null) (claims_for ''clinic_test'')) (warm []))) = 500"
  by (simp add: run_defs catch_post_patients_def type_error_read_def)

theorem missing_required_field_rejected_witness:
  "\<not> truthy (get_prop (Obj [(''first_name'', Str ''Jane''), (''last_name'', Str ''Doe'')]) ''date_of_birth'')
   \<and> handler scripted sample_env
        (request ''POST'' ''/patients'' (Parsed (Obj [(''first_name'', Str ''Jane''), (''last_name'', Str ''Doe'')]))
           (claims_for ''clinic_test'')) (warm [])
      = (\<lparr>statusCode = 400, headers = cors_headers sample_env,
          body = Json (Obj [(''message'',
                   Str ''Bad Request: Missing required patient fields (first_name, last_name, date_of_birth).'')])\<rparr>,
         warm [])
   \<and> handler scripted sample_env
        (request ''POST'' ''/patients'' (Parsed (Obj [(''first_name'', Str ''Jane''), (''last_name'', Str ''Doe'')]))
           (claims_for ''clinic_test'')) (cold [])
      = (\<lparr>statusCode = 400, headers = cors_headers sample_env,
          body = Json (Obj [(''message'',
                   Str ''Bad Request: Missing required patient fields (first_name, last_name, date_of_birth).'')])\<rparr>,
         \<lparr>pool = Some sample_credentials, db = [], trace = [Borrow, Exec (Stmt ''SELECT NOW()'' []), Release]\<rparr>)
   \<and> Stmt insert_patient_sql [] \<notin> set (statements (new_events (cold [])
        (snd (handler scripted sample_env
           (request ''POST'' ''/patients'' (Parsed (Obj [(''first_name'', Str ''Jane''), (''last_name'', Str ''Doe'')]))
              (claims_for ''clinic_test'')) (cold [])))))"
proof -
  let ?b = "Obj [(''first_name'', Str ''Jane''), (''last_name'', Str ''Doe'')]"
  let ?ev = "request ''POST'' ''/patients'' (Parsed ?b) (claims_for ''clinic_test'')"
  have 1: "ev_method ?ev = ''POST''" and 2: "ev_path ?ev = ''/patients''" by (simp_all add: request_def)
  have b: "body_or_empty (ev_body ?ev) = ?b" "ev_body ?ev = Parsed ?b" by (simp_all add: request_def body_or_empty_def)
  have d: "\<not> truthy (get_prop ?b ''date_of_birth'')" by simp
  then have 3: "\<not> truthy (get_prop (body_or_empty (ev_body ?ev)) ''first_name'')
         \<or> \<not> truthy (get_prop (body_or_empty (ev_body ?ev)) ''last_name'')
         \<or> \<not> truthy (get_prop (body_or_empty (ev_body ?ev)) ''date_of_birth'')"
    by (simp add: b(1))
  have n: "\<not> nullish (body_or_empty (ev_body ?ev))" by (simp add: b(1))
  have w: "pool (warm ([] :: reply list)) \<noteq> None" and c: "pool (cold ([] :: reply list)) = None"
    by (simp_all add: warm_def cold_def)
  have t: "extract_tenant (ev_claims ?ev) \<noteq> None" by (simp add: run_defs)
  have i: "initializePool scripted sample_env (cold []) =
      (None, \<lparr>pool = Some sample_credentials, db = [], trace = [Borrow, Exec (Stmt ''SELECT NOW()'' []), Release]\<rparr>)"
    by (simp add: run_defs)
  note r = missing_required_field_rejected [OF 1 2 3, where pg = scripted and env = sample_env]
  from r [of "cold []"] have "Stmt insert_patient_sql [] \<notin> set (statements (new_events (cold [])
        (snd (handler scripted sample_env ?ev (cold [])))))" by blast
  moreover from r [of "warm []"] w n t b(2) have "handler scripted sample_env ?ev (warm [])
      = (\<lparr>statusCode = 400, headers = cors_headers sample_env,
          body = Json (Obj [(''message'',
                   Str ''Bad Request: Missing required patient fields (first_name, last_name, date_of_birth).'')])\<rparr>,
         warm [])" by auto
  moreover from r [of "cold []"] c n t i b(2) have "handler scripted sample_env ?ev (cold [])
      = (\<lparr>statusCode = 400, headers = cors_headers sample_env,
          body = Json (Obj [(''message'',
                   Str ''Bad Request: Missing required patient fields (first_name, last_name, date_of_birth).'')])\<rparr>,
         \<lparr>pool = Some sample_credentials, db = [], trace = [Borrow, Exec (Stmt ''SELECT NOW()'' []), Release]\<rparr>)"
    by auto
  ultimately show ?thesis using d by blast
qed


text \<open>
  Claim C6, as amended. Whenever a \<^verbatim>\<open>POST /patients\<close> request leads to the \<^verbatim>\<open>INSERT\<close>,
  the body holds the three required fields and the statement has sixteen values: each
  of the eleven optional text columns that the body leaves out is \<^verbatim>\<open>NULL\<close>, an absent
  \<^verbatim>\<open>is_medicare_eligible\<close> is \<^verbatim>\<open>false\<close>, and an absent \<^verbatim>\<open>custom_data\<close> is the JSON
  text of the empty object.
\<close>

theorem unset_optionals_defaulted:
  assumes "ev_method ev = ''POST''" and "ev_path ev = ''/patients''"
    and "Stmt insert_patient_sql ps \<in> set (statements (new_events s (snd (handler pg env ev s))))"
  shows "length ps = 16
     \<and> truthy (get_prop (body_or_empty (ev_body ev)) ''first_name'')
     \<and> truthy (get_prop (body_or_empty (ev_body ev)) ''last_name'')
     \<and> truthy (get_prop (body_or_empty (ev_body ev)) ''date_of_birth'')
     \<and> (\<forall>(i, k) \<in> set (enumerate 3 optional_text_columns).
           get_prop (body_or_empty (ev_body ev)) k = Undefined \<longrightarrow> ps ! i = Val Null)
     \<and> (get_prop (body_or_empty (ev_body ev)) ''is_medicare_eligible'' = Undefined \<longrightarrow> ps ! 14 = Val (Bool False))
     \<and> (get_prop (body_or_empty (ev_body ev)) ''custom_data'' = Undefined \<longrightarrow> ps ! 15 = JsonText (Obj []))"
proof -
  from insert_patient_issued [OF assms] have
    ps: "ps = insert_patient_values (body_or_empty (ev_body ev))" and
    mr: "\<not> missing_required (body_or_empty (ev_body ev))" by blast+
  from ps have "length ps = 16" by (simp add: insert_patient_values_def)
  moreover from mr have "truthy (get_prop (body_or_empty (ev_body ev)) ''first_name'')
     \<and> truthy (get_prop (body_or_empty (ev_body ev)) ''last_name'')
     \<and> truthy (get_prop (body_or_empty (ev_body ev)) ''date_of_birth'')"
    by (simp add: missing_required_def)
  moreover from ps have "\<forall>(i, k) \<in> set (enumerate 3 optional_text_columns).
           get_prop (body_or_empty (ev_body ev)) k = Undefined \<longrightarrow> ps ! i = Val Null"
    by (simp add: insert_patient_values_def optional_text_columns_def js_or_def)
  moreover from ps have "get_prop (body_or_empty (ev_body ev)) ''is_medicare_eligible'' = Undefined \<longrightarrow> ps ! 14 = Val (Bool False)"
    by (simp add: insert_patient_values_def js_or_def)
  moreover from ps have "get_prop (body_or_empty (ev_body ev)) ''custom_data'' = Undefined \<longrightarrow> ps ! 15 = JsonText (Obj [])"
    by (simp add: insert_patient_values_def js_or_def)
  ultimately show ?thesis by blast
qed

text \<open>
  A body with the three required fields only: the last two values of the \<^verbatim>\<open>INSERT\<close>
  are \<^verbatim>\<open>false\<close> and the JSON text of the empty object, not \<^verbatim>\<open>NULL\<close>.
\<close>

theorem unset_optionals_counterexample:
  "get_prop jane ''is_medicare_eligible'' = Undefined
   \<and> get_prop jane ''custom_data'' = Undefined
   \<and> statements (new_events (warm [no_rows, no_rows, created])
        (snd (handler scripted sample_env (request ''POST'' ''/patients'' (Parsed jane) (claims_for ''clinic_test''))
           (warm [no_rows, no_rows, created]))))
     = [directive ''clinic_test'',
        Stmt insert_patient_sql
          [Val (Str ''Jane''), Val (Str ''Doe''), Val (Str ''1990-01-01''),
           Val Null, Val Null, Val Null, Val Null, Val Null, Val Null, Val Null, Val Null, Val Null, Val Null, Val Null,
           Val (Bool False), JsonText (Obj [])]]
   \<and> Val (Bool False) \<noteq> Val Null \<and> JsonText (Obj []) \<noteq> Val Null"
  by (simp add: run_defs)


theorem unset_optionals_defaulted_witness:
  "Stmt insert_patient_sql
      [Val (Str ''Jane''), Val (Str ''Doe''), Val (Str ''1990-01-01''),
       Val Null, Val Null, Val Null, Val Null, Val Null, Val Null, Val Null, Val Null, Val Null, Val Null, Val Null,
       Val (Bool False), JsonText (Obj [])]
     \<in> set (statements (new_events (warm [no_rows, no_rows, created])
        (snd (handler scripted sample_env (request ''POST'' ''/patients'' (Parsed jane) (claims_for ''clinic_test''))
           (warm [no_rows, no_rows, created])))))
   \<and> truthy (get_prop (body_or_empty (ev_body (request ''POST'' ''/patients'' (Parsed jane) (claims_for ''clinic_test''))))
        ''date_of_birth'')
   \<and> (3, ''middle_initial'') \<in> set (enumerate 3 optional_text_columns)
   \<and> get_prop (body_or_empty (ev_body (request ''POST'' ''/patients'' (Parsed jane) (claims_for ''clinic_test''))))
        ''middle_initial'' = Undefined
   \<and> [Val (Str ''Jane''), Val (Str ''Doe''), Val (Str ''1990-01-01''),
       Val Null, Val Null, Val Null, Val Null, Val Null, Val Null, Val Null, Val Null, Val Null, Val Null, Val Null,
       Val (Bool False), JsonText (Obj [])] ! 3 = Val Null
   \<and> get_prop (body_or_empty (ev_body (request ''POST'' ''/patients'' (Parsed jane) (claims_for ''clinic_test''))))
        ''is_medicare_eligible'' = Undefined
   \<and> [Val (Str ''Jane''), Val (Str ''Doe''), Val (Str ''1990-01-01''),
       Val Null, Val Null, Val Null, Val Null, Val Null, Val Null, Val Null, Val Null, Val Null, Val Null, Val Null,
       Val (Bool False), JsonText (Obj [])] ! 14 = Val (Bool False)"
proof -
  let ?ev = "request ''POST'' ''/patients'' (Parsed jane) (claims_for ''clinic_test'')"
  let ?ps = "[Val (Str ''Jane''), Val (Str ''Doe''), Val (Str ''1990-01-01''),
       Val Null, Val Null, Val Null, Val Null, Val Null, Val Null, Val Null, Val Null, Val Null, Val Null, Val Null,
       Val (Bool False), JsonText (Obj [])]"
  have 1: "ev_method ?ev = ''POST''" and 2: "ev_path ?ev = ''/patients''" by (simp_all add: request_def)
  have 3: "Stmt insert_patient_sql ?ps
     \<in> set (statements (new_events (warm [no_rows, no_rows, created])
        (snd (handler scripted sample_env ?ev (warm [no_rows, no_rows, created])))))"
    by (simp add: run_defs)
  have 4: "get_prop (body_or_empty (ev_body ?ev)) ''is_medicare_eligible'' = Undefined"
    "get_prop (body_or_empty (ev_body ?ev)) ''middle_initial'' = Undefined"
    by (simp_all add: request_def body_or_empty_def jane_def)
  have 5: "(3, ''middle_initial'') \<in> set (enumerate 3 optional_text_columns)"
    by (simp add: optional_text_columns_def)
  note r = unset_optionals_defaulted [OF 1 2 3]
  from r have "truthy (get_prop (body_or_empty (ev_body ?ev)) ''date_of_birth'')" by blast
  moreover from r 4(2) 5 have "?ps ! 3 = Val Null" by blast
  moreover from r 4(1) have "?ps ! 14 = Val (Bool False)" by blast
  ultimately show ?thesis using 3 4 5 by blast
qed

lemma post_soapnotes_statements:
  "\<exists>es. trace (snd (post_soapnotes pg env ev t s)) = trace s @ es
     \<and> (es = [] \<or> (\<exists>b. ev_body ev = Parsed b
            \<and> set (statements es) \<subseteq> {directive t, Stmt insert_note_sql (insert_note_values b)}))"
proof (cases "\<exists>b. ev_body ev = Parsed b \<and> \<not> not_an_object b \<and> truthy (get_prop b ''patient_id'')")
  case False
  then have "snd (post_soapnotes pg env ev t s) = s"
    by (auto simp: post_soapnotes_def split: body_input.splits)
  then show ?thesis by simp
next
  case True
  then obtain b where b: "ev_body ev = Parsed b" "\<not> not_an_object b" "truthy (get_prop b ''patient_id'')"
    by blast
  let ?q = "Stmt insert_note_sql (insert_note_values b)"
  let ?k = "\<lambda>result. case rows result of
                            [] \<Rightarrow> Inl (new_Error ''Failed to retrieve created note details after insert.'')
                          | newNote # _ \<Rightarrow>
                              Inr (Fallthrough 201
                                     (Obj [(''message'', Str ''SOAP note created successfully.''),
                                           (''note'', Obj newNote)]))"
  from b have eq: "snd (post_soapnotes pg env ev t s) = snd (with_tenant_client pg t (query_then pg ?q ?k) s)"
    by (simp add: post_soapnotes_def snd_catch_id)
  from with_tenant_client_statements [of pg t ?q ?k s] obtain es where
    "trace (snd (with_tenant_client pg t (query_then pg ?q ?k) s)) = trace s @ es"
    "set (statements es) \<subseteq> {directive t, ?q}" by blast
  with eq b(1) show ?thesis by auto
qed

lemma insert_note_distinct:
  "Stmt insert_note_sql ps \<noteq> Stmt ''SELECT NOW()'' []"
  "Stmt insert_note_sql ps \<noteq> directive t"
  by (simp_all add: insert_note_sql_def directive_def search_path_sql_def)

lemma note_lists: "length (target_columns insert_note_sql) = 10" "length (value_expressions insert_note_sql) = 9"
  "is_insert insert_note_sql"
  by (simp_all add: target_columns_def value_expressions_def comma_list_def parenthesised_def
      after_parenthesis_def insert_note_sql_def is_insert_def)

lemma patient_lists: "length (target_columns insert_patient_sql) = 16" "length (value_expressions insert_patient_sql) = 16"
  by (simp_all add: target_columns_def value_expressions_def comma_list_def parenthesised_def
      after_parenthesis_def insert_patient_sql_def)

lemma sanitize_codes_cases:
  "sanitize_codes v = (case v of Arr (c # cs) \<Rightarrow> JsonText (Arr (c # cs)) | _ \<Rightarrow> Val Null)"
  by (simp add: sanitize_codes_def split: jsval.splits list.splits)

lemma post_soapnotes_rejected:
  assumes "\<forall>d q. is_insert (sql q) \<and> length (target_columns (sql q)) \<noteq> length (value_expressions (sql q))
             \<longrightarrow> (\<exists>e d'. pg_query pg d q = (Inl e, d') \<and> code e = Some ''42601'')"
  shows "\<exists>es. trace (snd (post_soapnotes pg env ev t s)) = trace s @ es
     \<and> (case fst (post_soapnotes pg env ev t s) of
          Return r \<Rightarrow> statusCode r = 400 \<and> (\<forall>ps. Stmt insert_note_sql ps \<notin> set (statements es))
        | Fallthrough st b \<Rightarrow> st \<noteq> 201
            \<and> (\<forall>ps. Stmt insert_note_sql ps \<in> set (statements es) \<longrightarrow>
                  st = 500 \<and> (\<exists>e. b = msg_error ''Internal Server Error: Could not save SOAP note.'' (Str e))
                  \<and> (\<exists>requestBody. ev_body ev = Parsed requestBody \<and> ps = insert_note_values requestBody)))"
proof (cases "\<exists>b. ev_body ev = Parsed b \<and> \<not> not_an_object b \<and> truthy (get_prop b ''patient_id'')")
  case False
  then have "snd (post_soapnotes pg env ev t s) = s"
    "\<exists>r. fst (post_soapnotes pg env ev t s) = Return r \<and> statusCode r = 400"
    by (auto simp: post_soapnotes_def bad_request_def split: body_input.splits)
  then show ?thesis by auto
next
  case True
  then obtain b where b: "ev_body ev = Parsed b" "\<not> not_an_object b" "truthy (get_prop b ''patient_id'')"
    by blast
  let ?q = "Stmt insert_note_sql (insert_note_values b)"
  have rej: "\<And>d. \<exists>e d'. pg_query pg d ?q = (Inl e, d') \<and> code e = Some ''42601''"
    using assms note_lists by simp
  from rej obtain E D where ED: "\<And>d. pg_query pg d ?q = (Inl (E d), D d)" "\<And>d. code (E d) = Some ''42601''"
    by metis
  have nd: "insert_note_sql \<noteq> search_path_sql t"
    by (simp add: insert_note_sql_def search_path_sql_def)
  show ?thesis using b
    by (auto simp: nd post_soapnotes_def with_tenant_client_def setTenantSearchPath_def query_then_def
        pool_connect_def client_query_def client_release_def catch_post_soapnotes_def ED directive_def
        Let_def new_Error_def
        split: prod.splits option.splits sum.splits)
qed

text \<open>
  Claim C10. The \<^verbatim>\<open>INSERT\<close> of \<^verbatim>\<open>POST /soapnotes\<close> names ten target columns and gives
  nine values. On a database that rejects an \<^verbatim>\<open>INSERT\<close> whose two lists differ in
  length, as PostgreSQL does, no request is answered 201: whenever the statement is sent,
  with the codes prepared as the claim says, it is rejected, the answer is 500 and
  nothing is stored.
\<close>

theorem note_insert_never_stored:
  assumes "ev_method ev = ''POST''" and "ev_path ev = ''/soapnotes''"
    and "\<forall>d q. is_insert (sql q) \<and> length (target_columns (sql q)) \<noteq> length (value_expressions (sql q))
             \<longrightarrow> (\<exists>e d'. pg_query pg d q = (Inl e, d') \<and> code e = Some ''42601'')"
  shows "length (target_columns insert_note_sql) = 10
     \<and> length (value_expressions insert_note_sql) = 9
     \<and> statusCode (fst (handler pg env ev s)) \<noteq> 201
     \<and> (\<forall>ps. Stmt insert_note_sql ps \<in> set (statements (new_events s (snd (handler pg env ev s)))) \<longrightarrow>
           (\<exists>requestBody. ev_body ev = Parsed requestBody
              \<and> length ps = 9
              \<and> ps ! 6 = (case get_prop requestBody ''dx_codes'' of
                            Arr (c # cs) \<Rightarrow> JsonText (Arr (c # cs)) | _ \<Rightarrow> Val Null)
              \<and> ps ! 7 = (case get_prop requestBody ''billing_codes'' of
                            Arr (c # cs) \<Rightarrow> JsonText (Arr (c # cs)) | _ \<Rightarrow> Val Null))
           \<and> statusCode (fst (handler pg env ev s)) = 500
           \<and> (\<exists>e. body (fst (handler pg env ev s)) =
                  Json (Obj [(''message'', Str ''Internal Server Error: Could not save SOAP note.''),
                             (''error'', Str e)])))"
proof -
  let ?sent = "\<lambda>ps. Stmt insert_note_sql ps \<in> set (statements (new_events s (snd (handler pg env ev s))))"
  let ?then = "\<lambda>ps. (\<exists>requestBody. ev_body ev = Parsed requestBody
              \<and> length ps = 9
              \<and> ps ! 6 = (case get_prop requestBody ''dx_codes'' of
                            Arr (c # cs) \<Rightarrow> JsonText (Arr (c # cs)) | _ \<Rightarrow> Val Null)
              \<and> ps ! 7 = (case get_prop requestBody ''billing_codes'' of
                            Arr (c # cs) \<Rightarrow> JsonText (Arr (c # cs)) | _ \<Rightarrow> Val Null))
           \<and> statusCode (fst (handler pg env ev s)) = 500
           \<and> (\<exists>e. body (fst (handler pg env ev s)) =
                  Json (Obj [(''message'', Str ''Internal Server Error: Could not save SOAP note.''),
                             (''error'', Str e)]))"
  have m: "ev_method ev \<noteq> ''OPTIONS''" using assms(1) by simp
  from handler_cases [OF m, of pg env s]
  have main: "statusCode (fst (handler pg env ev s)) \<noteq> 201 \<and> (\<forall>ps. ?sent ps \<longrightarrow> ?then ps)"
  proof (elim disjE exE conjE)
    fix s1
    assume a: "statusCode (fst (handler pg env ev s)) = 500" "snd (handler pg env ev s) = s1"
      "set (statements (new_events s s1)) \<subseteq> {Stmt ''SELECT NOW()'' []}"
    from a(2,3) insert_note_distinct(1) have "\<And>ps. \<not> ?sent ps" by blast
    with a(1) show ?thesis by simp
  next
    fix i s1
    assume i: "init_events i" "trace s1 = trace s @ i"
      and h: "handler pg env ev s =
                (case dispatch pg env ev s1 of
                   (Return r, s2) \<Rightarrow> (r, s2)
                 | (Fallthrough status responseBody, s2) \<Rightarrow>
                     (\<lparr>statusCode = status, headers = finalHeaders env, body = Json responseBody\<rparr>, s2))"
    show ?thesis
    proof (cases "extract_tenant (ev_claims ev)")
      case None
      with assms(1,2) have "dispatch pg env ev s1 =
          (Return (bad_request env ''Bad Request: Tenant identifier missing or invalid in user token.''), s1)"
        by (simp add: dispatch_def)
      with h have r: "statusCode (fst (handler pg env ev s)) = 400" "snd (handler pg env ev s) = s1"
        by (simp_all add: bad_request_def)
      from r(2) i have "new_events s (snd (handler pg env ev s)) = i" by (simp add: new_events_def)
      with init_statements [OF i(1)] insert_note_distinct(1) have "\<And>ps. \<not> ?sent ps" by auto
      with r(1) show ?thesis by simp
    next
      case (Some t)
      with assms(1,2) have d: "dispatch pg env ev s1 = post_soapnotes pg env ev t s1"
        by (simp add: dispatch_def route_def)
      from post_soapnotes_rejected [OF assms(3), of env ev t s1] obtain es where
        es: "trace (snd (post_soapnotes pg env ev t s1)) = trace s1 @ es" and
        c: "case fst (post_soapnotes pg env ev t s1) of
          Return r \<Rightarrow> statusCode r = 400 \<and> (\<forall>ps. Stmt insert_note_sql ps \<notin> set (statements es))
        | Fallthrough st b \<Rightarrow> st \<noteq> 201
            \<and> (\<forall>ps. Stmt insert_note_sql ps \<in> set (statements es) \<longrightarrow>
                  st = 500 \<and> (\<exists>e. b = msg_error ''Internal Server Error: Could not save SOAP note.'' (Str e))
                  \<and> (\<exists>requestBody. ev_body ev = Parsed requestBody \<and> ps = insert_note_values requestBody))"
        by blast
      obtain out s2 where o: "post_soapnotes pg env ev t s1 = (out, s2)"
        by (cases "post_soapnotes pg env ev t s1")
      from h d o have s2: "snd (handler pg env ev s) = s2" by (cases out) simp_all
      with es o i have ne: "new_events s (snd (handler pg env ev s)) = i @ es" by (simp add: new_events_def)
      have sent: "\<And>ps. ?sent ps \<Longrightarrow> Stmt insert_note_sql ps \<in> set (statements es)"
        using ne init_statements [OF i(1)] insert_note_distinct(1) by (auto simp: statements_append)
      show ?thesis
      proof (cases out)
        case (Return r)
        with h d o c have "statusCode (fst (handler pg env ev s)) = 400" by simp
        moreover from Return o c sent have "\<And>ps. \<not> ?sent ps" by auto
        ultimately show ?thesis by simp
      next
        case (Fallthrough st b)
        with h d o have r: "fst (handler pg env ev s) = \<lparr>statusCode = st, headers = finalHeaders env, body = Json b\<rparr>"
          by simp
        from Fallthrough o c have st: "st \<noteq> 201" and
          k: "\<And>ps. Stmt insert_note_sql ps \<in> set (statements es) \<Longrightarrow>
                  st = 500 \<and> (\<exists>e. b = msg_error ''Internal Server Error: Could not save SOAP note.'' (Str e))
                  \<and> (\<exists>requestBody. ev_body ev = Parsed requestBody \<and> ps = insert_note_values requestBody)"
          by simp_all
        have "?then ps" if "?sent ps" for ps
        proof -
          from k [OF sent [OF that]] obtain e requestBody where
            f: "st = 500" "b = msg_error ''Internal Server Error: Could not save SOAP note.'' (Str e)"
               "ev_body ev = Parsed requestBody" "ps = insert_note_values requestBody" by blast
          from f(4) have "length ps = 9
              \<and> ps ! 6 = (case get_prop requestBody ''dx_codes'' of
                            Arr (c # cs) \<Rightarrow> JsonText (Arr (c # cs)) | _ \<Rightarrow> Val Null)
              \<and> ps ! 7 = (case get_prop requestBody ''billing_codes'' of
                            Arr (c # cs) \<Rightarrow> JsonText (Arr (c # cs)) | _ \<Rightarrow> Val Null)"
            by (simp add: insert_note_values_def sanitize_codes_cases)
          with f(1,2,3) r show ?thesis by (simp add: msg_error_def)
        qed
        with st r show ?thesis by simp
      qed
    qed
  qed
  with note_lists(1,2) show ?thesis by blast
qed

theorem note_insert_never_stored_witness:
  "fst (handler strict_pg sample_env (request ''POST'' ''/soapnotes'' (Parsed note_body) (claims_for ''clinic_test''))
         (warm ()))
     = \<lparr>statusCode = 500, headers = cors_headers sample_env,
        body = Json (Obj [(''message'', Str ''Internal Server Error: Could not save SOAP note.''),
                          (''error'', Str ''INSERT has more target columns than expressions'')])\<rparr>
   \<and> statements (new_events (warm ())
        (snd (handler strict_pg sample_env (request ''POST'' ''/soapnotes'' (Parsed note_body) (claims_for ''clinic_test''))
           (warm ()))))
     = [directive ''clinic_test'',
        Stmt insert_note_sql
          [Val (Str ''p-1''), Val Null, Val Null, Val Null, Val Null, Val Null,
           JsonText (Arr [Str ''M54.5'']), Val Null, Val (Str ''SOAP'')]]
   \<and> length (target_columns insert_note_sql) = 10
   \<and> length (value_expressions insert_note_sql) = 9
   \<and> statusCode (fst (handler strict_pg sample_env
        (request ''POST'' ''/patients'' (Parsed jane) (claims_for ''clinic_test'')) (warm ()))) = 201"
proof -
  let ?ev = "request ''POST'' ''/soapnotes'' (Parsed note_body) (claims_for ''clinic_test'')"
  let ?ps = "[Val (Str ''p-1''), Val Null, Val Null, Val Null, Val Null, Val Null,
           JsonText (Arr [Str ''M54.5'']), Val Null, Val (Str ''SOAP'')]"
  have 1: "ev_method ?ev = ''POST''" and 2: "ev_path ?ev = ''/soapnotes''" by (simp_all add: request_def)
  have 3: "\<forall>d q. is_insert (sql q) \<and> length (target_columns (sql q)) \<noteq> length (value_expressions (sql q))
             \<longrightarrow> (\<exists>e d'. pg_query strict_pg d q = (Inl e, d') \<and> code e = Some ''42601'')"
    by (simp add: strict_pg_def list_mismatch_def)
  have q: "pg_query strict_pg = (\<lambda>d q. if sql q = insert_note_sql then (Inl list_mismatch, d)
        else if is_insert (sql q) \<and> length (target_columns (sql q)) \<noteq> length (value_expressions (sql q))
         then (Inl list_mismatch, d)
         else (Inr \<lparr>rows = [[(''patient_id'', Str ''p-1'')]], rowCount = 1\<rparr>, d))"
    using note_lists by (auto simp: strict_pg_def fun_eq_iff)
  have c: "pg_connect strict_pg = (\<lambda>d. (None, d))" by (simp add: strict_pg_def)
  have t: "statements (new_events (warm ()) (snd (handler strict_pg sample_env ?ev (warm ()))))
     = [directive ''clinic_test'', Stmt insert_note_sql ?ps]"
    by (simp add: run_defs c q is_insert_def insert_note_sql_def catch_post_soapnotes_def list_mismatch_def)
  then have s: "Stmt insert_note_sql ?ps
      \<in> set (statements (new_events (warm ()) (snd (handler strict_pg sample_env ?ev (warm ())))))"
    by simp
  have p: "statusCode (fst (handler strict_pg sample_env
        (request ''POST'' ''/patients'' (Parsed jane) (claims_for ''clinic_test'')) (warm ()))) = 201"
    using patient_lists by (simp add: run_defs strict_pg_def is_insert_def)
  note r = note_insert_never_stored [OF 1 2 3, of sample_env "warm ()"]
  from r s have "statusCode (fst (handler strict_pg sample_env ?ev (warm ()))) = 500" by blast
  moreover have "fst (handler strict_pg sample_env ?ev (warm ()))
     = \<lparr>statusCode = 500, headers = cors_headers sample_env,
        body = Json (Obj [(''message'', Str ''Internal Server Error: Could not save SOAP note.''),
                          (''error'', Str ''INSERT has more target columns than expressions'')])\<rparr>"
    by (simp add: run_defs c q is_insert_def insert_note_sql_def catch_post_soapnotes_def list_mismatch_def)
  ultimately show ?thesis using t p r by blast
qed

section \<open>Responses\<close>

lemma with_client_outcome:
  assumes "\<And>e. P (g e)" and "\<And>result out. k result = Inr out \<Longrightarrow> P out"
  shows "P (fst (case with_tenant_client pg t (query_then pg q k) s of
                   (Inr out, s') \<Rightarrow> (out, s') | (Inl e, s') \<Rightarrow> (g e, s')))"
  using assms
  by (auto simp: with_tenant_client_def query_then_def split: prod.splits option.splits sum.splits)

lemma answers_message_simps:
  "answers_message env l (Fallthrough st (msg m))"
  "answers_message env l (Fallthrough st (msg_error m e))"
  "answers_message env l (Fallthrough st (schema_not_found t err))"
  "answers_message env l (Fallthrough st (Obj ((''message'', Str m) # kvs)))"
  "answers_message env True (Fallthrough 200 (Arr xs))"
  "answers_message env l (Return (bad_request env m))"
  by (simp_all add: answers_message_def msg_def msg_error_def schema_not_found_def bad_request_def)

lemma catch_answers:
  "answers_message env l (catch_post_patients t e)"
  "answers_message env l (catch_put_patient t i e)"
  "answers_message env l (catch_delete_patient t i e)"
  "answers_message env l (catch_queue t e)"
  "answers_message env l (catch_post_soapnotes env t b e)"
  "answers_message env l (catch_get_soapnotes t p e)"
  "answers_message env l (catch_get_soapnote t i e)"
  "answers_message env l (catch_put_soapnote t i e)"
  by (simp_all add: catch_post_patients_def catch_put_patient_def catch_delete_patient_def catch_queue_def
      catch_post_soapnotes_def catch_get_soapnotes_def catch_get_soapnote_def catch_put_soapnote_def
      answers_message_simps Let_def)

lemma get_patients_answers: "answers_message env True (fst (get_patients pg t s))"
  unfolding get_patients_def
  by (rule with_client_outcome) (auto simp: answers_message_simps)

lemma get_queue_answers: "answers_message env True (fst (get_queue pg t s))"
  unfolding get_queue_def
  by (rule with_client_outcome) (auto simp: answers_message_simps catch_answers)

lemma delete_patient_answers: "answers_message env l (fst (delete_patient pg ev t s))"
proof (cases "falsy_str (ev_path_id ev)")
  case True
  then show ?thesis by (simp add: delete_patient_def answers_message_simps)
next
  case False
  then show ?thesis
    unfolding delete_patient_def Let_def
    by (simp only: if_False) (rule with_client_outcome, auto simp: answers_message_simps catch_answers split: if_splits)
qed


lemma get_soapnotes_answers: "answers_message env l (fst (get_soapnotes pg ev t s))"
  unfolding get_soapnotes_def Let_def
  by (rule with_client_outcome) (auto simp: answers_message_simps catch_answers)

lemma get_soapnote_answers: "answers_message env l (fst (get_soapnote pg ev t s))"
proof (cases "falsy_str (ev_path_id ev)")
  case True
  then show ?thesis by (simp add: get_soapnote_def answers_message_simps)
next
  case False
  then show ?thesis
    unfolding get_soapnote_def Let_def
    by (simp only: if_False)
       (rule with_client_outcome, auto simp: answers_message_simps catch_answers split: list.splits)
qed

lemma post_patients_answers: "answers_message env l (fst (post_patients pg ev t s))"
proof (cases "(\<exists>m. ev_body ev = Unparseable m) \<or> nullish (body_or_empty (ev_body ev))
    \<or> missing_required (body_or_empty (ev_body ev))")
  case True
  then show ?thesis
    by (auto simp: post_patients_def Let_def answers_message_simps catch_answers split: body_input.splits)
next
  case False
  let ?b = "body_or_empty (ev_body ev)"
  let ?k = "\<lambda>result. case rows result of
                      [] \<Rightarrow> Inl (new_Error ''Failed to retrieve created patient details after insert.'')
                    | newPatient # _ \<Rightarrow>
                        Inr (Fallthrough 201
                               (Obj [(''message'', Str ''Patient created successfully.''),
                                     (''patientId'', get_prop (Obj newPatient) ''patient_id'')]))"
  from False have "post_patients pg ev t s =
      (case with_tenant_client pg t (query_then pg (Stmt insert_patient_sql (insert_patient_values ?b)) ?k) s of
         (Inr out, s') \<Rightarrow> (out, s') | (Inl dbError, s') \<Rightarrow> (catch_post_patients t dbError, s'))"
    by (auto simp: post_patients_def Let_def split: body_input.splits)
  moreover have "answers_message env l (fst (case with_tenant_client pg t
        (query_then pg (Stmt insert_patient_sql (insert_patient_values ?b)) ?k) s of
         (Inr out, s') \<Rightarrow> (out, s') | (Inl dbError, s') \<Rightarrow> (catch_post_patients t dbError, s')))"
    by (rule with_client_outcome) (auto simp: answers_message_simps catch_answers split: list.splits)
  ultimately show ?thesis by simp
qed

lemma post_soapnotes_answers: "answers_message env l (fst (post_soapnotes pg env ev t s))"
proof (cases "\<exists>b. ev_body ev = Parsed b \<and> \<not> not_an_object b \<and> truthy (get_prop b ''patient_id'')")
  case False
  then show ?thesis
    by (auto simp: post_soapnotes_def answers_message_simps split: body_input.splits)
next
  case True
  then obtain b where b: "ev_body ev = Parsed b" "\<not> not_an_object b" "truthy (get_prop b ''patient_id'')"
    by blast
  let ?k = "\<lambda>result. case rows result of
                            [] \<Rightarrow> Inl (new_Error ''Failed to retrieve created note details after insert.'')
                          | newNote # _ \<Rightarrow>
                              Inr (Fallthrough 201
                                     (Obj [(''message'', Str ''SOAP note created successfully.''),
                                           (''note'', Obj newNote)]))"
  from b have "post_soapnotes pg env ev t s =
      (case with_tenant_client pg t (query_then pg (Stmt insert_note_sql (insert_note_values b)) ?k) s of
         (Inr out, s') \<Rightarrow> (out, s') | (Inl dbError, s') \<Rightarrow> (catch_post_soapnotes env t b dbError, s'))"
    by (simp add: post_soapnotes_def)
  moreover have "answers_message env l (fst (case with_tenant_client pg t
        (query_then pg (Stmt insert_note_sql (insert_note_values b)) ?k) s of
         (Inr out, s') \<Rightarrow> (out, s') | (Inl dbError, s') \<Rightarrow> (catch_post_soapnotes env t b dbError, s')))"
    by (rule with_client_outcome) (auto simp: answers_message_simps catch_answers split: list.splits)
  ultimately show ?thesis by simp
qed

lemma with_client_work_outcome:
  assumes "\<And>e. P (g e)" and "\<And>s1 out s2. work s1 = (Inr out, s2) \<Longrightarrow> P out"
  shows "P (fst (case with_tenant_client pg t work s of
                   (Inr out, s') \<Rightarrow> (out, s') | (Inl e, s') \<Rightarrow> (g e, s')))"
proof (cases "with_tenant_client pg t work s")
  case (Pair r s')
  show ?thesis
  proof (cases r)
    case (Inl e)
    with Pair assms(1) show ?thesis by simp
  next
    case (Inr out)
    with Pair have "\<exists>s1 s2. work s1 = (Inr out, s2)"
      by (auto simp: with_tenant_client_def split: prod.splits option.splits)
    with assms(2) have "P out" by blast
    with Pair Inr show ?thesis by simp
  qed
qed

lemma put_patient_answers: "answers_message env l (fst (put_patient pg ev t s))"
  apply (simp add: put_patient_def Let_def answers_message_simps catch_answers
      split: body_input.splits option.splits)
  apply (intro conjI impI allI)
   apply (rule with_client_work_outcome,
      (auto simp: query_then_def answers_message_simps catch_answers
        split: prod.splits sum.splits list.splits if_splits)[2])+
  done

lemma put_soapnote_answers: "answers_message env l (fst (put_soapnote pg ev t s))"
  apply (simp add: put_soapnote_def Let_def answers_message_simps catch_answers
      split: body_input.splits option.splits)
  apply (intro conjI impI allI)
   apply (rule with_client_work_outcome,
      (auto simp: query_then_def answers_message_simps catch_answers
        split: prod.splits sum.splits list.splits if_splits)[2])+
  done


lemma route_answers:
  "answers_message env
     (ev_method ev = ''GET'' \<and> ev_path ev \<in> {''/patients'', ''/queue'', ''/waiting-queue''})
     (fst (route pg env ev t s))"
  by (simp add: route_def Let_def get_patients_answers get_queue_answers post_patients_answers
      put_patient_answers delete_patient_answers post_soapnotes_answers get_soapnotes_answers
      get_soapnote_answers put_soapnote_answers answers_message_simps)

lemma has_message_is_json: "has_message b \<Longrightarrow> is_json b"
  by (cases b) simp_all

lemma dispatch_response:
  assumes "dispatch pg env ev s = (out, s')"
  shows "(case out of Return r \<Rightarrow> r
          | Fallthrough st b \<Rightarrow> \<lparr>statusCode = st, headers = finalHeaders env, body = Json b\<rparr>) = r
     \<Longrightarrow> headers r = cors_headers env \<and> is_json (body r)
       \<and> (has_message (body r)
          \<or> (ev_path ev = ''/healthcheck'' \<and> ev_method ev = ''GET'')
          \<or> (statusCode r = 200 \<and> ev_method ev = ''GET''
              \<and> ev_path ev \<in> {''/patients'', ''/queue'', ''/waiting-queue''} \<and> is_row_array (body r)))"
proof (cases "ev_path ev = ''/healthcheck'' \<and> ev_method ev = ''GET''")
  case True
  assume r: "(case out of Return r \<Rightarrow> r
          | Fallthrough st b \<Rightarrow> \<lparr>statusCode = st, headers = finalHeaders env, body = Json b\<rparr>) = r"
  from True assms have "fst (healthcheck pg env s) = out" by (simp add: dispatch_def)
  with probe_succeeds_healthcheck [of pg env s] r True show ?thesis by auto
next
  case False
  assume r: "(case out of Return r \<Rightarrow> r
          | Fallthrough st b \<Rightarrow> \<lparr>statusCode = st, headers = finalHeaders env, body = Json b\<rparr>) = r"
  have a: "answers_message env
     (ev_method ev = ''GET'' \<and> ev_path ev \<in> {''/patients'', ''/queue'', ''/waiting-queue''}) out"
  proof (cases "extract_tenant (ev_claims ev)")
    case None
    with False assms show ?thesis by (auto simp: dispatch_def answers_message_simps)
  next
    case (Some t)
    with False assms have "out = fst (route pg env ev t s)" by (auto simp: dispatch_def)
    with route_answers show ?thesis by simp
  qed
  show ?thesis
  proof (cases out)
    case (Return x)
    with a r show ?thesis by (auto simp: answers_message_def has_message_is_json)
  next
    case (Fallthrough st b)
    with a r show ?thesis
      by (auto simp: answers_message_def finalHeaders_cors)
  qed
qed


text \<open>
  Claim C4, as amended. An \<^verbatim>\<open>OPTIONS\<close> request is answered 204 with the preflight
  headers and an empty body. Every other response carries the same four headers and a
  JSON body. The body is an object with a \<^verbatim>\<open>message\<close> string, except for
  \<^verbatim>\<open>GET /healthcheck\<close>, whose body is the status object, and for a successful
  \<^verbatim>\<open>GET /patients\<close>, \<^verbatim>\<open>GET /queue\<close> or \<^verbatim>\<open>GET /waiting-queue\<close>, whose body is the
  array of rows.
\<close>

theorem responses_carry_headers_and_message:
  "(ev_method ev = ''OPTIONS'' \<longrightarrow>
      handler pg env ev s =
        (\<lparr>statusCode = 204,
          headers = [(''Access-Control-Allow-Origin'', Str (allow_origin env)),
                     (''Access-Control-Allow-Methods'', Str ''OPTIONS,POST,GET,PUT,DELETE''),
                     (''Access-Control-Allow-Headers'', Str ''Content-Type, Authorization''),
                     (''Access-Control-Max-Age'', Num 86400)],
          body = Raw []\<rparr>, s))
   \<and> (ev_method ev \<noteq> ''OPTIONS'' \<longrightarrow>
        headers (fst (handler pg env ev s)) = cors_headers env
        \<and> is_json (body (fst (handler pg env ev s)))
        \<and> (has_message (body (fst (handler pg env ev s)))
           \<or> (ev_path ev = ''/healthcheck'' \<and> ev_method ev = ''GET'')
           \<or> (statusCode (fst (handler pg env ev s)) = 200 \<and> ev_method ev = ''GET''
               \<and> ev_path ev \<in> {''/patients'', ''/queue'', ''/waiting-queue''}
               \<and> is_row_array (body (fst (handler pg env ev s))))))"
proof (rule conjI; rule impI)
  assume "ev_method ev = ''OPTIONS''"
  then show "handler pg env ev s =
        (\<lparr>statusCode = 204,
          headers = [(''Access-Control-Allow-Origin'', Str (allow_origin env)),
                     (''Access-Control-Allow-Methods'', Str ''OPTIONS,POST,GET,PUT,DELETE''),
                     (''Access-Control-Allow-Headers'', Str ''Content-Type, Authorization''),
                     (''Access-Control-Max-Age'', Num 86400)],
          body = Raw []\<rparr>, s)"
    by (simp add: handler_def preflight_response_def)
next
  assume m: "ev_method ev \<noteq> ''OPTIONS''"
  let ?r = "fst (handler pg env ev s)"
  obtain r0 s1 where i: "(if pool s = None then initializePool pg env s else (None, s)) = (r0, s1)"
    by (cases "if pool s = None then initializePool pg env s else (None, s)")
  show "headers ?r = cors_headers env \<and> is_json (body ?r)
        \<and> (has_message (body ?r)
           \<or> (ev_path ev = ''/healthcheck'' \<and> ev_method ev = ''GET'')
           \<or> (statusCode ?r = 200 \<and> ev_method ev = ''GET''
               \<and> ev_path ev \<in> {''/patients'', ''/queue'', ''/waiting-queue''} \<and> is_row_array (body ?r)))"
  proof (cases r0)
    case (Some e)
    with m i have "?r = \<lparr>statusCode = 500, headers = cors_headers env,
        body = Json (msg_error ''Internal Server Error: Could not connect to database.'' (Str (message e)))\<rparr>"
      by (simp add: handler_def)
    then show ?thesis by (simp add: msg_error_def)
  next
    case None
    obtain out s2 where d: "dispatch pg env ev s1 = (out, s2)" by (cases "dispatch pg env ev s1")
    with m i None have "(case out of Return r \<Rightarrow> r
          | Fallthrough st b \<Rightarrow> \<lparr>statusCode = st, headers = finalHeaders env, body = Json b\<rparr>) = ?r"
      by (simp add: handler_def split: outcome.splits)
    from dispatch_response [OF d this] show ?thesis .
  qed
qed

theorem responses_carry_headers_and_message_witness:
  "has_message (body (fst (handler scripted sample_env
      (request ''DELETE'' ''/patients/p-1'' NoBody (claims_for ''clinic_test'')) (warm []))))
   \<and> headers (fst (handler scripted sample_env
      (request ''DELETE'' ''/patients/p-1'' NoBody (claims_for ''clinic_test'')) (warm []))) = cors_headers sample_env
   \<and> statusCode (fst (handler scripted sample_env
      (request ''OPTIONS'' ''/patients'' NoBody Undefined) (warm []))) = 204"
proof -
  let ?ev = "request ''DELETE'' ''/patients/p-1'' NoBody (claims_for ''clinic_test'')"
  let ?op = "request ''OPTIONS'' ''/patients'' NoBody Undefined"
  have 1: "ev_method ?ev \<noteq> ''OPTIONS''" "\<not> (ev_path ?ev = ''/healthcheck'' \<and> ev_method ?ev = ''GET'')"
    "\<not> (ev_method ?ev = ''GET'')" and 2: "ev_method ?op = ''OPTIONS''"
    by (simp_all add: request_def)
  from responses_carry_headers_and_message [where ev = ?ev and pg = scripted and env = sample_env and s = "warm []"] 1
  have a: "has_message (body (fst (handler scripted sample_env ?ev (warm []))))"
    and b: "headers (fst (handler scripted sample_env ?ev (warm []))) = cors_headers sample_env"
    by blast+
  from responses_carry_headers_and_message [where ev = ?op and pg = scripted and env = sample_env and s = "warm []"] 2
  have "statusCode (fst (handler scripted sample_env ?op (warm []))) = 204" by simp
  with a b show ?thesis by blast
qed

text \<open>
  The health check and the patient list answer without a \<^verbatim>\<open>message\<close> field; the
  preflight answer has an empty body and headers of its own.
\<close>

theorem responses_without_message_counterexample:
  "\<not> has_message (body (fst (handler scripted sample_env
        (request ''GET'' ''/healthcheck'' NoBody Undefined) (warm []))))
   \<and> \<not> has_message (body (fst (handler scripted sample_env
        (request ''GET'' ''/patients'' NoBody (claims_for ''clinic_test'')) (warm []))))
   \<and> statusCode (fst (handler scripted sample_env
        (request ''GET'' ''/patients'' NoBody (claims_for ''clinic_test'')) (warm []))) = 200
   \<and> \<not> is_json (body (fst (handler scripted sample_env
        (request ''OPTIONS'' ''/patients'' NoBody Undefined) (warm []))))
   \<and> headers (fst (handler scripted sample_env (request ''OPTIONS'' ''/patients'' NoBody Undefined) (warm [])))
       \<noteq> headers (fst (handler scripted sample_env
             (request ''GET'' ''/patients'' NoBody (claims_for ''clinic_test'')) (warm [])))"
  by (simp add: run_defs)

section \<open>The waiting queue\<close>











end
